theory Spec2Isabelle
  imports Complex_Main "HOL-Library.AList"
begin

section \<open>Python strings, slices and \<open>str.rfind\<close>\<close>

text \<open>
  A Python \<open>str\<close> is a sequence of Unicode code points; \<open>len\<close> counts code points.
  The model keeps that: a string is the list of its code points.
\<close>

type_synonym pystr = "nat list"

definition str :: "string \<Rightarrow> pystr" where
  "str s = map of_char s"

text \<open>
  The characters \<open>str.strip()\<close> removes: those for which \<open>str.isspace\<close> holds
  (TAB..CR, FS..US, SPACE, NEL, NBSP and the Unicode space separators).
\<close>

definition isspace :: "nat \<Rightarrow> bool" where
  "isspace c \<longleftrightarrow>
     (9 \<le> c \<and> c \<le> 13) \<or> (28 \<le> c \<and> c \<le> 32) \<or> c = 133 \<or> c = 160 \<or> c = 5760 \<or>
     (8192 \<le> c \<and> c \<le> 8202) \<or> c = 8232 \<or> c = 8233 \<or> c = 8239 \<or> c = 8287 \<or> c = 12288"

definition lstrip :: "pystr \<Rightarrow> pystr" where
  "lstrip s = dropWhile isspace s"

definition rstrip :: "pystr \<Rightarrow> pystr" where
  "rstrip s = rev (dropWhile isspace (rev s))"

definition strip :: "pystr \<Rightarrow> pystr" where
  "strip s = rstrip (lstrip s)"

text \<open>
  Slice bounds as Python normalises them: a negative bound counts from the end, and
  every bound is clamped into \<open>0..len\<close>.
\<close>

definition adjust_index :: "int \<Rightarrow> nat \<Rightarrow> nat" where
  "adjust_index i n =
     (if i < 0 then (if i + int n < 0 then 0 else nat (i + int n))
      else if int n < i then n else nat i)"

definition py_slice :: "'a list \<Rightarrow> int \<Rightarrow> int \<Rightarrow> 'a list" where
  "py_slice xs a b =
     (let lo = adjust_index a (length xs); hi = adjust_index b (length xs)
      in take (hi - lo) (drop lo xs))"

definition py_slice_from :: "'a list \<Rightarrow> int \<Rightarrow> 'a list" where
  "py_slice_from xs a = drop (adjust_index a (length xs)) xs"

text \<open>
  \<open>text.rfind(sub, start, end)\<close>: the highest index \<open>i\<close> with
  \<open>start \<le> i\<close>, \<open>i + len(sub) \<le> end\<close> and \<open>text[i:i+len(sub)] == sub\<close>
  (bounds normalised as for slices), and \<open>-1\<close> when there is none.
\<close>

definition rfind :: "pystr \<Rightarrow> pystr \<Rightarrow> int \<Rightarrow> int \<Rightarrow> int" where
  "rfind text sub start end =
     (let n = length text; m = length sub;
          hi = adjust_index end n;
          lo = (if start < 0 then (if start + int n < 0 then 0 else nat (start + int n))
                else nat start)
      in if hi < lo + m then - 1
         else (case List.find (\<lambda>i. take m (drop i text) = sub) (rev [lo ..< Suc (hi - m)]) of
                 None \<Rightarrow> - 1
               | Some i \<Rightarrow> int i))"

section \<open>The chunker (\<open>app/rag/chunking.py\<close>)\<close>

record chunker =
  chunk_size :: int
  overlap :: int

text \<open>The separators of \<open>TextChunker.__init__\<close>, in priority order.\<close>

definition separators :: "pystr list" where
  "separators =
     [[10, 10, 10], [10, 10], [10], str ''. '', str ''! '', str ''? '', str ''; '', str '', '',
      str '' '']"

text \<open>
  The \<open>for sep in self._separators\<close> loop: the first separator whose right-most
  occurrence in the window lies strictly after \<open>start\<close> decides the split; with none,
  the split is the window's end.
\<close>

fun find_split :: "pystr \<Rightarrow> int \<Rightarrow> int \<Rightarrow> pystr list \<Rightarrow> int" where
  "find_split text start end [] = end"
| "find_split text start end (sep # seps) =
     (let split_pos = rfind text sep start end
      in if split_pos > start then split_pos + int (length sep)
         else find_split text start end seps)"

text \<open>\<open>if chunk and len(chunk) >= 50: chunks.append(chunk)\<close>\<close>

definition keep_chunk :: "pystr list \<Rightarrow> pystr \<Rightarrow> pystr list" where
  "keep_chunk chunks c = (if c \<noteq> [] \<and> 50 \<le> length c then chunks @ [c] else chunks)"

text \<open>
  The \<open>while start < len(text)\<close> loop. It need not terminate, so it is a partial
  function: \<open>None\<close> is the loop that never returns.
\<close>

partial_function (option) chunk_loop ::
  "int \<Rightarrow> int \<Rightarrow> pystr \<Rightarrow> int \<Rightarrow> pystr list \<Rightarrow> pystr list option" where
  "chunk_loop csize ovl text start chunks =
     (if start < int (length text) then
        (let end = start + csize in
         if end \<ge> int (length text) then
           Some (keep_chunk chunks (strip (py_slice_from text start)))
         else
           (let best_split = find_split text start end separators;
                chunks' = keep_chunk chunks (strip (py_slice text start best_split));
                start' = best_split - ovl
            in chunk_loop csize ovl text (if start' < 0 then 0 else start') chunks'))
      else Some chunks)"

definition chunk :: "chunker \<Rightarrow> pystr \<Rightarrow> pystr list option" where
  "chunk c text =
     (if text = [] \<or> strip text = [] then Some []
      else (let text = strip text
            in if int (length text) \<le> chunk_size c then Some [text]
               else chunk_loop (chunk_size c) (overlap c) text 0 []))"





section \<open>Values, dictionaries and errors\<close>

text \<open>
  The JSON-like values the payload dictionaries carry, and a dictionary as the list of
  its items in insertion order. \<open>d.get(k, default)\<close> is \<open>dict_get\<close>; \<open>{**a, **b}\<close> is
  \<open>dict_merge a b\<close>: a key of \<open>b\<close> already in \<open>a\<close> keeps its place and takes \<open>b\<close>'s
  value, a new key goes to the end.
\<close>

datatype pyval = PStr pystr | PInt int | PNone

type_synonym pydict = "(pystr \<times> pyval) list"

definition dict_get :: "pydict \<Rightarrow> pystr \<Rightarrow> pyval \<Rightarrow> pyval" where
  "dict_get d k dflt = (case map_of d k of None \<Rightarrow> dflt | Some v \<Rightarrow> v)"

definition dict_merge :: "pydict \<Rightarrow> pydict \<Rightarrow> pydict" where
  "dict_merge a b = fold (\<lambda>(k, v) d. AList.update k v d) b a"

text \<open>\<open>str(i)\<close> for an integer, and \<open>str(v)\<close> as an f-string formats a value.\<close>

fun digits :: "nat \<Rightarrow> pystr" where
  "digits n = (if n < 10 then [48 + n] else digits (n div 10) @ [48 + n mod 10])"

declare digits.simps [simp del]

definition str_of_int :: "int \<Rightarrow> pystr" where
  "str_of_int i = (if i < 0 then 45 # digits (nat (- i)) else digits (nat i))"

fun py_str :: "pyval \<Rightarrow> pystr" where
  "py_str (PStr s) = s"
| "py_str (PInt i) = str_of_int i"
| "py_str PNone = str ''None''"

text \<open>\<open>sep.join(parts)\<close>\<close>

fun join :: "pystr \<Rightarrow> pystr list \<Rightarrow> pystr" where
  "join sep [] = []"
| "join sep [p] = p"
| "join sep (p # q # ps) = p @ sep @ join sep (q # ps)"

text \<open>
  \<open>s.lower()\<close> on the ASCII letters; other code points are left as they are (none of
  them lowers to a character of \<open>.pdf\<close>, the only use of \<open>lower\<close> here).
\<close>

definition py_lower :: "pystr \<Rightarrow> pystr" where
  "py_lower s = map (\<lambda>c. if 65 \<le> c \<and> c \<le> 90 then c + 32 else c) s"

definition endswith :: "pystr \<Rightarrow> pystr \<Rightarrow> bool" where
  "endswith s suf \<longleftrightarrow> length suf \<le> length s \<and> drop (length s - length suf) s = suf"

definition startswith :: "pystr \<Rightarrow> pystr \<Rightarrow> bool" where
  "startswith s pre \<longleftrightarrow> take (length pre) s = pre"

text \<open>
  The exceptions the modelled code raises. \<open>HTTPException n\<close> is FastAPI's exception
  with status code \<open>n\<close>; \<open>HTTPError\<close> is \<open>httpx.HTTPError\<close>. An exception no handler
  catches leaves the route as it is (the framework answers with status 500).
\<close>

datatype error = RuntimeError | IndexError | KeyError | TypeError | HTTPError | HTTPException nat

section \<open>The embedding service (\<open>app/rag/embedding.py\<close>)\<close>

text \<open>
  \<open>_model\<close> is \<open>None\<close> until the model is loaded. A loaded model is its \<open>encode\<close>
  function, from a list of texts to their vectors; the vector type is left open.
\<close>

record 'v embedding_service =
  model :: "(pystr list \<Rightarrow> 'v list) option"

text \<open>\<open>embed\<close> takes one text or a list of texts; one text is wrapped into a list.\<close>

definition embed :: "'v embedding_service \<Rightarrow> pystr + pystr list \<Rightarrow> error + 'v list" where
  "embed svc texts =
     (case model svc of
        None \<Rightarrow> Inl RuntimeError
      | Some encode \<Rightarrow> Inr (encode (case texts of Inl s \<Rightarrow> [s] | Inr ts \<Rightarrow> ts)))"

definition embed_query :: "'v embedding_service \<Rightarrow> pystr \<Rightarrow> error + 'v" where
  "embed_query svc query =
     (let prefixed = str ''query: '' @ query
      in case embed svc (Inl prefixed) of
           Inl e \<Rightarrow> Inl e
         | Inr results \<Rightarrow> (case results of [] \<Rightarrow> Inl IndexError | v # _ \<Rightarrow> Inr v))"

definition embed_documents :: "'v embedding_service \<Rightarrow> pystr list \<Rightarrow> error + 'v list" where
  "embed_documents svc documents =
     (let prefixed = map (\<lambda>doc. str ''passage: '' @ doc) documents
      in embed svc (Inr prefixed))"

section \<open>The vector store (\<open>app/rag/vectorstore.py\<close>)\<close>

subsection \<open>The vector database\<close>

record 'v point =
  point_id :: pystr
  vector :: 'v
  payload :: pydict

text \<open>\<open>FieldCondition(key=k, match=MatchValue(value=v))\<close> and \<open>Filter(must=[...])\<close>.\<close>

datatype condition = FieldCondition pystr pyval

datatype qfilter = Filter (must: "condition list")

text \<open>
  Modelled from the spec: the vector database engine behind \<open>AsyncQdrantClient\<close>, an
  external capability (\<open>upsert\<close>, \<open>query\<close> with filter and limit, \<open>scroll\<close> with filter
  and limit, \<open>delete\<close> by filter). The collection is the list of its points, with the
  similarity the collection was created with; the score type is any linear order. A
  \<open>must\<close> filter holds of a payload when every condition does, and a condition holds
  when the payload has the value under the key.
\<close>

record ('v, 's) qdrant =
  points :: "'v point list"
  similarity :: "'v \<Rightarrow> 'v \<Rightarrow> 's"

fun matches_condition :: "pydict \<Rightarrow> condition \<Rightarrow> bool" where
  "matches_condition pl (FieldCondition k v) \<longleftrightarrow> map_of pl k = Some v"

definition matches :: "qfilter option \<Rightarrow> pydict \<Rightarrow> bool" where
  "matches flt pl = (case flt of None \<Rightarrow> True | Some f \<Rightarrow> list_all (matches_condition pl) (must f))"

record 's scored_point =
  sp_id :: pystr
  sp_score :: 's
  sp_payload :: pydict

text \<open>
  \<open>query_points\<close>: the points that pass the filter, best score first, at most \<open>limit\<close>
  of them, each with its payload and without its vector.
\<close>

definition query_points ::
  "('v, 's::linorder) qdrant \<Rightarrow> 'v \<Rightarrow> int \<Rightarrow> qfilter option \<Rightarrow> 's scored_point list" where
  "query_points db query limit query_filter =
     map (\<lambda>p. \<lparr>sp_id = point_id p, sp_score = similarity db query (vector p),
               sp_payload = payload p\<rparr>)
       (take (nat limit)
          (rev (sort_key (\<lambda>p. similarity db query (vector p))
                  (filter (\<lambda>p. matches query_filter (payload p)) (points db)))))"

text \<open>
  \<open>scroll\<close> without an offset: the first \<open>limit\<close> points that pass the filter, and the
  id of the next one when there are more.
\<close>

definition scroll ::
  "('v, 's) qdrant \<Rightarrow> qfilter option \<Rightarrow> nat \<Rightarrow> 'v point list \<times> pystr option" where
  "scroll db scroll_filter limit =
     (let ms = filter (\<lambda>p. matches scroll_filter (payload p)) (points db)
      in (take limit ms, (case drop limit ms of [] \<Rightarrow> None | p # _ \<Rightarrow> Some (point_id p))))"

definition delete_points :: "('v, 's) qdrant \<Rightarrow> qfilter \<Rightarrow> ('v, 's) qdrant" where
  "delete_points db points_selector =
     db\<lparr>points := filter (\<lambda>p. \<not> matches (Some points_selector) (payload p)) (points db)\<rparr>"

text \<open>\<open>upsert\<close>: a point replaces the stored point of the same id, or is added.\<close>

definition upsert :: "('v, 's) qdrant \<Rightarrow> 'v point list \<Rightarrow> ('v, 's) qdrant" where
  "upsert db ps =
     db\<lparr>points := filter (\<lambda>p. point_id p \<notin> set (map point_id ps)) (points db) @ ps\<rparr>"

subsection \<open>The service\<close>

text \<open>
  The fields of \<open>VectorStoreService\<close>, and with them the process's source of
  identifiers: the \<open>n\<close>-th call of \<open>uuid.uuid4()\<close> returns \<open>uuid4 n\<close> (as a string), and
  \<open>uuid_calls\<close> counts the calls made so far.
\<close>

record ('v, 's) vectorstore =
  client :: "('v, 's) qdrant"
  embedding :: "'v embedding_service"
  chunker :: chunker
  uuid4 :: "nat \<Rightarrow> pystr"
  uuid_calls :: nat

text \<open>
  \<open>add_text\<close>: chunk, embed the chunks as passages, upsert one point per chunk with
  payload \<open>{"text": chunk_text, **metadata}\<close>. The result is \<open>None\<close> when the chunker
  never returns; otherwise the outcome (an exception or the number of points) and the
  state after it.
\<close>

definition add_text ::
  "('v, 's) vectorstore \<Rightarrow> pystr \<Rightarrow> pydict \<Rightarrow> ((error + nat) \<times> ('v, 's) vectorstore) option" where
  "add_text vs txt metadata =
     (case chunk (chunker vs) txt of
        None \<Rightarrow> None
      | Some chunks \<Rightarrow>
          Some
            (if chunks = [] then (Inr 0, vs)
             else (case embed_documents (embedding vs) chunks of
                     Inl e \<Rightarrow> (Inl e, vs)
                   | Inr embeddings \<Rightarrow>
                       (let pairs = zip chunks embeddings;
                            new_points =
                              map (\<lambda>(i, (chunk_text, emb)).
                                     \<lparr>point_id = uuid4 vs (uuid_calls vs + i), vector = emb,
                                      payload = dict_merge [(str ''text'', PStr chunk_text)] metadata\<rparr>)
                                (zip [0 ..< length pairs] pairs)
                        in (Inr (length new_points),
                            vs\<lparr>client := upsert (client vs) new_points,
                               uuid_calls := uuid_calls vs + length pairs\<rparr>)))))"

text \<open>
  A transcript dictionary, as far as \<open>add_transcript\<close> reads it; \<open>None\<close> is a missing
  key, for which \<open>.get\<close> supplies the default.
\<close>

record transcript =
  tr_text :: "pystr option"
  tr_filename :: "pyval option"
  tr_duration :: "pyval option"

definition add_transcript ::
  "('v, 's) vectorstore \<Rightarrow> transcript \<Rightarrow> pystr \<Rightarrow>
     ((error + nat) \<times> ('v, 's) vectorstore) option" where
  "add_transcript vs tr patient_id =
     (let txt = (case tr_text tr of None \<Rightarrow> [] | Some t \<Rightarrow> t);
          metadata =
            [(str ''source'', (case tr_filename tr of None \<Rightarrow> PStr (str ''audio_transcript'') | Some f \<Rightarrow> f)),
             (str ''document_type'', PStr (str ''transcript'')),
             (str ''patient_id'', PStr patient_id),
             (str ''duration'', (case tr_duration tr of None \<Rightarrow> PInt 0 | Some d \<Rightarrow> d)),
             (str ''document_id'', PStr (uuid4 vs (uuid_calls vs))),
             (str ''page'', PInt 0)]
      in add_text (vs\<lparr>uuid_calls := uuid_calls vs + 1\<rparr>) txt metadata)"

text \<open>A search result: \<open>{"text": ..., "score": ..., "metadata": {...}}\<close>.\<close>

record 's retrieval_result =
  res_text :: pyval
  res_score :: 's
  res_metadata :: pydict

definition build_filter :: "pydict option \<Rightarrow> qfilter option" where
  "build_filter filters =
     (case filters of
        None \<Rightarrow> None
      | Some fs \<Rightarrow>
          if fs = [] then None
          else (let conditions = map (\<lambda>(key, val). FieldCondition key val) fs
                in if conditions = [] then None else Some (Filter conditions)))"

definition format_point :: "'s scored_point \<Rightarrow> 's retrieval_result" where
  "format_point p =
     (let pl = sp_payload p
      in \<lparr>res_text = dict_get pl (str ''text'') (PStr []),
          res_score = sp_score p,
          res_metadata = filter (\<lambda>(k, v). k \<noteq> str ''text'') pl\<rparr>)"

definition search ::
  "('v, 's::linorder) vectorstore \<Rightarrow> pystr \<Rightarrow> int \<Rightarrow> pydict option \<Rightarrow>
     error + 's retrieval_result list" where
  "search vs query top_k filters =
     (case embed_query (embedding vs) query of
        Inl e \<Rightarrow> Inl e
      | Inr query_embedding \<Rightarrow>
          (let qdrant_filter = build_filter filters;
               results = query_points (client vs) query_embedding top_k qdrant_filter
           in Inr (map format_point results)))"

text \<open>
  \<open>delete_document\<close>: one \<open>scroll\<close> with \<open>limit=10000\<close> counts the points of the
  document, then every point that passes the same filter is deleted.
\<close>

definition document_filter :: "pystr \<Rightarrow> qfilter" where
  "document_filter document_id = Filter [FieldCondition (str ''document_id'') (PStr document_id)]"

definition delete_document ::
  "('v, 's) vectorstore \<Rightarrow> pystr \<Rightarrow> nat \<times> ('v, 's) vectorstore" where
  "delete_document vs document_id =
     (let results = scroll (client vs) (Some (document_filter document_id)) 10000;
          count = length (fst results)
      in (count, vs\<lparr>client := delete_points (client vs) (document_filter document_id)\<rparr>))"

text \<open>
  The result a stored point is returned as: its text, its score, and its payload
  without the \<open>text\<close> key.
\<close>

definition project :: "('v \<Rightarrow> 's) \<Rightarrow> 'v point \<Rightarrow> 's retrieval_result" where
  "project sc p =
     \<lparr>res_text = dict_get (payload p) (str ''text'') (PStr []),
      res_score = sc (vector p),
      res_metadata = filter (\<lambda>(k, v). k \<noteq> str ''text'') (payload p)\<rparr>"

section \<open>Document upload (\<open>app/routes/documents.py\<close>)\<close>

text \<open>
  The upload form, and the OCR service's JSON reply as far as the handler reads it
  (\<open>None\<close> is a missing key, for which \<open>.get\<close> supplies the default).
\<close>

record upload_request =
  up_filename :: pystr
  up_pdf_bytes :: "nat list"
  up_document_type :: pystr
  up_patient_id :: "pystr option"
  up_case_number :: "pystr option"

record page_info =
  pg_text :: "pystr option"
  pg_page :: "pyval option"

record ocr_result =
  ocr_markdown :: "pystr option"
  ocr_pages :: "page_info list option"
  ocr_total_pages :: "pyval option"

record upload_response =
  rsp_document_id :: pystr
  rsp_filename :: pystr
  rsp_total_pages :: pyval
  rsp_chunks_indexed :: nat
  rsp_characters_extracted :: nat
  rsp_metadata :: pydict

text \<open>
  The \<open>for page_info in pages\<close> loop with its running \<open>chunks_indexed\<close>. An exception
  of \<open>add_text\<close> leaves the loop; what earlier pages indexed stays indexed.
\<close>

fun index_pages ::
  "('v, 's) vectorstore \<Rightarrow> pydict \<Rightarrow> page_info list \<Rightarrow> nat \<Rightarrow>
     ((error + nat) \<times> ('v, 's) vectorstore) option" where
  "index_pages vs metadata [] chunks_indexed = Some (Inr chunks_indexed, vs)"
| "index_pages vs metadata (pinfo # rest) chunks_indexed =
     (let page_text = (case pg_text pinfo of None \<Rightarrow> [] | Some t \<Rightarrow> t);
          page_num = (case pg_page pinfo of None \<Rightarrow> PInt 0 | Some n \<Rightarrow> n)
      in if strip page_text \<noteq> [] then
           (case add_text vs page_text (dict_merge metadata [(str ''page'', page_num)]) of
              None \<Rightarrow> None
            | Some (Inl e, vs') \<Rightarrow> Some (Inl e, vs')
            | Some (Inr count, vs') \<Rightarrow> index_pages vs' metadata rest (chunks_indexed + count))
         else index_pages vs metadata rest chunks_indexed)"

text \<open>
  \<open>upload_document\<close>. The OCR call is outside the repository: its outcome (the reply
  or the exception) is an argument. The result is \<open>None\<close> when chunking never returns.
\<close>

definition upload_document ::
  "('v, 's) vectorstore \<Rightarrow> upload_request \<Rightarrow> error + ocr_result \<Rightarrow>
     ((error + upload_response) \<times> ('v, 's) vectorstore) option" where
  "upload_document vs req ocr =
     (if length (up_pdf_bytes req) = 0 then Some (Inl (HTTPException 400), vs)
      else if \<not> endswith (py_lower (up_filename req)) (str ''.pdf'') then
        Some (Inl (HTTPException 400), vs)
      else
        (case ocr of
           Inl HTTPError \<Rightarrow> Some (Inl (HTTPException 502), vs)
         | Inl e \<Rightarrow> Some (Inl e, vs)
         | Inr ocr_result \<Rightarrow>
             (let markdown_text = (case ocr_markdown ocr_result of None \<Rightarrow> [] | Some m \<Rightarrow> m);
                  pages = (case ocr_pages ocr_result of None \<Rightarrow> [] | Some ps \<Rightarrow> ps);
                  total_pages = (case ocr_total_pages ocr_result of None \<Rightarrow> PInt 0 | Some n \<Rightarrow> n)
              in if strip markdown_text = [] then Some (Inl (HTTPException 422), vs)
                 else
                   (let doc_id = uuid4 vs (uuid_calls vs);
                        vs1 = vs\<lparr>uuid_calls := uuid_calls vs + 1\<rparr>;
                        metadata =
                          [(str ''source'', PStr (up_filename req)),
                           (str ''document_id'', PStr doc_id),
                           (str ''document_type'', PStr (up_document_type req)),
                           (str ''patient_id'',
                              PStr (case up_patient_id req of None \<Rightarrow> [] | Some p \<Rightarrow> p)),
                           (str ''case_number'',
                              PStr (case up_case_number req of None \<Rightarrow> [] | Some c \<Rightarrow> c)),
                           (str ''total_pages'', total_pages)]
                    in case (if pages \<noteq> [] then index_pages vs1 metadata pages 0
                             else add_text vs1 markdown_text
                                    (dict_merge metadata [(str ''page'', PInt 0)])) of
                         None \<Rightarrow> None
                       | Some (Inl e, vs2) \<Rightarrow> Some (Inl (HTTPException 500), vs2)
                       | Some (Inr chunks_indexed, vs2) \<Rightarrow>
                           Some (Inr \<lparr>rsp_document_id = doc_id,
                                      rsp_filename = up_filename req,
                                      rsp_total_pages = total_pages,
                                      rsp_chunks_indexed = chunks_indexed,
                                      rsp_characters_extracted = length markdown_text,
                                      rsp_metadata = metadata\<rparr>, vs2)))))"

section \<open>Transcript indexing (\<open>app/routes/audio.py\<close>)\<close>

text \<open>
  \<open>transcribe_long_audio\<close>, as far as it reaches the index. The speech-to-text service
  (and the denoiser before it, which only changes the audio handed to it) is outside
  the repository: whether it is ready and what \<open>transcribe\<close> returns are arguments.
  Indexing happens only with a non-empty \<open>patient_id\<close>, and an exception of
  \<open>add_transcript\<close> is swallowed (\<open>indexed = False\<close>).
\<close>

record transcribe_request =
  au_filename :: pystr
  au_audio_bytes :: "nat list"
  au_patient_id :: "pystr option"

record stt_result =
  stt_text :: pystr
  stt_duration :: "pyval option"

record transcribe_response =
  trs_transcript :: transcript
  trs_indexed :: "bool option"

definition transcribe_long_audio ::
  "('v, 's) vectorstore \<Rightarrow> bool \<Rightarrow> transcribe_request \<Rightarrow> error + stt_result \<Rightarrow>
     ((error + transcribe_response) \<times> ('v, 's) vectorstore) option" where
  "transcribe_long_audio vs stt_ready req stt =
     (if \<not> stt_ready then Some (Inl (HTTPException 503), vs)
      else if length (au_audio_bytes req) = 0 then Some (Inl (HTTPException 400), vs)
      else
        (case stt of
           Inl e \<Rightarrow> Some (Inl (HTTPException 500), vs)
         | Inr result \<Rightarrow>
             (let tr = \<lparr>tr_text = Some (stt_text result),
                        tr_filename = Some (PStr (au_filename req)),
                        tr_duration = Some (case stt_duration result of None \<Rightarrow> PInt 0 | Some d \<Rightarrow> d)\<rparr>
              in case au_patient_id req of
                   None \<Rightarrow> Some (Inr \<lparr>trs_transcript = tr, trs_indexed = None\<rparr>, vs)
                 | Some pid \<Rightarrow>
                     if pid = [] then Some (Inr \<lparr>trs_transcript = tr, trs_indexed = None\<rparr>, vs)
                     else
                       (case add_transcript vs tr pid of
                          None \<Rightarrow> None
                        | Some (Inl e, vs') \<Rightarrow>
                            Some (Inr \<lparr>trs_transcript = tr, trs_indexed = Some False\<rparr>, vs')
                        | Some (Inr n, vs') \<Rightarrow>
                            Some (Inr \<lparr>trs_transcript = tr, trs_indexed = Some True\<rparr>, vs')))))"

text \<open>
  The states the two ingestion operations reach from a state \<open>vs0\<close>.
\<close>

inductive_set reachable :: "('v, 's) vectorstore \<Rightarrow> ('v, 's) vectorstore set"
  for vs0 :: "('v, 's) vectorstore" where
  start: "vs0 \<in> reachable vs0"
| upload: "vs \<in> reachable vs0 \<Longrightarrow> upload_document vs req ocr = Some (r, vs') \<Longrightarrow>
     vs' \<in> reachable vs0"
| transcribe: "vs \<in> reachable vs0 \<Longrightarrow> transcribe_long_audio vs ready areq stt = Some (r', vs') \<Longrightarrow>
     vs' \<in> reachable vs0"

text \<open>
  The metadata invariant: two stored points with the same \<open>document_id\<close> agree on every
  payload key other than \<open>text\<close> and \<open>page\<close>.
\<close>

definition same_document :: "'v point \<Rightarrow> 'v point \<Rightarrow> bool" where
  "same_document p q \<longleftrightarrow>
     map_of (payload p) (str ''document_id'') = map_of (payload q) (str ''document_id'')"

definition metadata_agree :: "'v point \<Rightarrow> 'v point \<Rightarrow> bool" where
  "metadata_agree p q \<longleftrightarrow>
     (\<forall>k. k \<noteq> str ''text'' \<and> k \<noteq> str ''page'' \<longrightarrow> map_of (payload p) k = map_of (payload q) k)"

text \<open>
  Two auxiliary notions for the invariant's proof: a point whose payload agrees, outside
  \<open>text\<close> and \<open>page\<close>, with a metadata dictionary; and a store in which every point's
  \<open>document_id\<close> is an identifier handed out so far.
\<close>

definition from_metadata :: "pydict \<Rightarrow> 'v point \<Rightarrow> bool" where
  "from_metadata md p \<longleftrightarrow>
     (\<forall>k. k \<noteq> str ''text'' \<and> k \<noteq> str ''page'' \<longrightarrow> map_of (payload p) k = map_of (rev md) k)"

definition doc_ids_used :: "('v, 's) vectorstore \<Rightarrow> bool" where
  "doc_ids_used vs \<longleftrightarrow>
     (\<forall>p \<in> set (points (client vs)). \<exists>n < uuid_calls vs.
        map_of (payload p) (str ''document_id'') = Some (PStr (uuid4 vs n)))"

definition metadata_invariant :: "('v, 's) vectorstore \<Rightarrow> bool" where
  "metadata_invariant vs \<longleftrightarrow>
     doc_ids_used vs \<and>
     (\<forall>p \<in> set (points (client vs)). \<forall>q \<in> set (points (client vs)).
        same_document p q \<longrightarrow> metadata_agree p q)"

text \<open>
  What a step of the index does: stored points stay or go, and each new point comes
  from the one metadata dictionary.
\<close>

definition extends :: "pydict \<Rightarrow> ('v, 's) vectorstore \<Rightarrow> ('v, 's) vectorstore \<Rightarrow> bool" where
  "extends md vs vs' \<longleftrightarrow>
     uuid4 vs' = uuid4 vs \<and> uuid_calls vs \<le> uuid_calls vs' \<and>
     (\<forall>p \<in> set (points (client vs')). p \<in> set (points (client vs)) \<or> from_metadata md p)"


section \<open>Chat completions (\<open>app/routes/chat.py\<close>)\<close>

definition SYSTEM_PROMPT_head :: pystr where
  "SYSTEM_PROMPT_head =
     str ''Du bist ein hochqualifizierter psychiatrischer KI-Assistent f'' @ [252] @
     str ''r klinische Fachkr'' @ [228] @ str ''fte.'' @ [10, 10] @ str ''REGELN:'' @ [10] @
     str ''1. Antworte AUSSCHLIESSLICH auf Basis der bereitgestellten Kontextinformationen.'' @
     [10] @ str ''2. Wenn die bereitgestellten Informationen nicht ausreichen, sage klar:'' @
     [10] @ str ''   '' @ [34] @ str ''Die verf'' @ [252] @
     str ''gbaren Unterlagen enthalten keine ausreichende Evidenz zu dieser Frage.'' @
     [34, 10] @
     str ''3. Halluziniere NIEMALS Diagnosen, Medikamente, Dosierungen oder Behandlungsempfehlungen.'' @
     [10] @
     str ''4. Zitiere die Quelle (Dokumentname, Seite) bei jeder faktischen Aussage.'' @
     [10] @ str ''5. Verwende korrekte psychiatrische Fachterminologie (ICD-11, DSM-5-TR).'' @
     [10] @ str ''6. Kennzeichne deine Reasoning-Schritte klar und nachvollziehbar.'' @ [10] @
     str ''7. Bei Unsicherheit gib den Konfidenzgrad an (hoch/mittel/niedrig).'' @ [10] @
     str ''8. Weise bei kritischen Entscheidungen immer darauf hin, dass eine '' @ [228] @
     str ''rztliche '' @ [220] @ str ''berpr'' @ [252] @ str ''fung erforderlich ist.'' @
     [10, 10] @ str ''KONTEXT AUS WISSENSDATENBANK:'' @ [10]"

definition SYSTEM_PROMPT_tail :: pystr where
  "SYSTEM_PROMPT_tail = [10]"

text \<open>\<open>SYSTEM_PROMPT.format(context=...)\<close>\<close>

definition system_prompt :: "pystr \<Rightarrow> pystr" where
  "system_prompt context = SYSTEM_PROMPT_head @ context @ SYSTEM_PROMPT_tail"

record chat_message =
  role :: pystr
  content :: pystr

record chat_request =
  req_messages :: "chat_message list"
  req_temperature :: "real option"
  req_max_tokens :: "int option"
  req_stream :: "bool option"
  req_top_p :: "real option"

record 's settings =
  llm_model :: pystr
  llm_max_tokens :: int
  llm_temperature :: real
  rag_top_k :: int
  rag_similarity_threshold :: 's

text \<open>
  Python's float formatting of a score is taken as given: \<open>fixed2\<close> is
  \<open>f"{score:.2f}"\<close> and \<open>percent0\<close> is \<open>f"{score:.0%}"\<close>.
\<close>

record 's float_format =
  fixed2 :: "'s \<Rightarrow> pystr"
  percent0 :: "'s \<Rightarrow> pystr"

text \<open>
  The request sent to the generation backend, and its reply as far as the handler
  reads it: the choices (\<open>None\<close> when the key is missing), each with what
  \<open>choice["message"]["content"]\<close> holds: \<open>None\<close> when the choice has no message or the
  message no content, otherwise the JSON value (a string, or \<open>null\<close> as \<open>PNone\<close>). The
  backend is outside the repository: \<open>llm_post\<close> is the outcome of the POST (the JSON
  or the \<open>httpx\<close> exception), \<open>llm_lines\<close> the lines of the event stream.
\<close>

record llm_payload =
  pl_model :: pystr
  pl_messages :: "chat_message list"
  pl_temperature :: real
  pl_max_tokens :: int
  pl_stream :: bool
  pl_top_p :: "real option"

record llm_choice =
  message_content :: "pyval option"

record llm_result =
  choices :: "llm_choice list option"

record backend =
  llm_post :: "llm_payload \<Rightarrow> error + llm_result"
  llm_lines :: "llm_payload \<Rightarrow> pystr list"

record 's source =
  src_source :: pyval
  src_page :: pyval
  src_score :: 's

datatype chat_response = Completion llm_result | Streaming "pystr list"

text \<open>The last message with role \<open>user\<close>; the empty string when there is none.\<close>

definition last_user_message :: "chat_message list \<Rightarrow> pystr" where
  "last_user_message msgs =
     (case List.find (\<lambda>msg. role msg = str ''user'') (rev msgs) of
        None \<Rightarrow> []
      | Some msg \<Rightarrow> content msg)"

text \<open>
  The results at or above the threshold, each with its number from
  \<open>enumerate(results, 1)\<close>.
\<close>

definition relevant ::
  "'s::linorder settings \<Rightarrow> 's retrieval_result list \<Rightarrow> (nat \<times> 's retrieval_result) list" where
  "relevant st results =
     filter (\<lambda>(i, result). rag_similarity_threshold st \<le> res_score result)
       (zip [1 ..< Suc (length results)] results)"

definition context_part :: "'s float_format \<Rightarrow> nat \<times> 's retrieval_result \<Rightarrow> pystr" where
  "context_part fmt = (\<lambda>(i, result).
     str ''[Quelle '' @ str_of_int (int i) @ str '': '' @
     py_str (dict_get (res_metadata result) (str ''source'') (PStr (str ''Unbekannt''))) @
     str '', S.'' @ py_str (dict_get (res_metadata result) (str ''page'') (PStr (str ''?''))) @
     str ''] (Relevanz: '' @ fixed2 fmt (res_score result) @ str '')'' @ [10] @
     py_str (res_text result))"

definition source_of :: "nat \<times> 's retrieval_result \<Rightarrow> 's source" where
  "source_of = (\<lambda>(i, result).
     \<lparr>src_source = dict_get (res_metadata result) (str ''source'') (PStr (str ''Unbekannt'')),
      src_page = dict_get (res_metadata result) (str ''page'') (PStr (str ''?'')),
      src_score = res_score result\<rparr>)"

text \<open>
  The retrieval step: the context and the sources. Any exception of the search gives
  the "not available" context and no sources.
\<close>

definition retrieve ::
  "'s float_format \<Rightarrow> 's::linorder settings \<Rightarrow> ('v, 's) vectorstore \<Rightarrow> pystr \<Rightarrow>
     pystr \<times> 's source list" where
  "retrieve fmt st vs user_message =
     (case search vs user_message (rag_top_k st) None of
        Inl e \<Rightarrow> (str ''[Wissensdatenbank nicht verf'' @ [252] @ str ''gbar]'', [])
      | Inr results \<Rightarrow>
          if results \<noteq> [] then
            (join ([10, 10] @ str ''---'' @ [10, 10]) (map (context_part fmt) (relevant st results)),
             map source_of (relevant st results))
          else ([], []))"

text \<open>The "Quellen" section \<open>_complete_llm_response\<close> appends.\<close>

definition source_line :: "'s float_format \<Rightarrow> 's source \<Rightarrow> pystr" where
  "source_line fmt s =
     str ''- '' @ py_str (src_source s) @ str '', Seite '' @ py_str (src_page s) @
     str '' (Relevanz: '' @ percent0 fmt (src_score s) @ str '')'' @ [10]"

definition source_text :: "'s float_format \<Rightarrow> 's source list \<Rightarrow> pystr" where
  "source_text fmt sources =
     [10, 10] @ str ''---'' @ [10] @ str ''**Quellen:**'' @ [10] @
     concat (map (source_line fmt) sources)"

text \<open>
  \<open>_complete_llm_response\<close>. The append is
  \<open>result["choices"][0]["message"]["content"] += source_text\<close>: it raises \<open>KeyError\<close>
  when the message or its content is missing and \<open>TypeError\<close> when the content is not a
  string.
\<close>

definition complete_llm_response ::
  "'s float_format \<Rightarrow> backend \<Rightarrow> llm_payload \<Rightarrow> 's source list \<Rightarrow> error + llm_result" where
  "complete_llm_response fmt be request_json sources =
     (case llm_post be request_json of
        Inl e \<Rightarrow> Inl e
      | Inr result \<Rightarrow>
          if sources \<noteq> [] \<and> choices result \<noteq> None \<and> choices result \<noteq> Some [] then
            (case choices result of
               Some (c # cs) \<Rightarrow>
                 (case message_content c of
                    None \<Rightarrow> Inl KeyError
                  | Some (PStr answer) \<Rightarrow>
                      Inr (result\<lparr>choices :=
                             Some (c\<lparr>message_content :=
                                      Some (PStr (answer @ source_text fmt sources))\<rparr> # cs)\<rparr>)
                  | Some other \<Rightarrow> Inl TypeError)
             | other \<Rightarrow> Inr result)
          else Inr result)"

text \<open>
  \<open>_stream_llm_response\<close>: the backend's \<open>data: \<close> lines, each followed by a blank
  line, and the final \<open>[DONE]\<close> event.
\<close>

definition stream_llm_response :: "backend \<Rightarrow> llm_payload \<Rightarrow> pystr list" where
  "stream_llm_response be request_json =
     map (\<lambda>line. line @ [10, 10])
       (filter (\<lambda>line. startswith line (str ''data: '')) (llm_lines be request_json))
     @ [str ''data: [DONE]'' @ [10, 10]]"

text \<open>The \<open>llm_payload\<close> dictionary \<open>chat_completions\<close> builds for a context.\<close>

definition llm_request :: "'s settings \<Rightarrow> chat_request \<Rightarrow> pystr \<Rightarrow> llm_payload" where
  "llm_request st body context =
     (let system_content =
            system_prompt
              (if context \<noteq> [] then context
               else str ''[Keine relevanten Dokumente gefunden]'');
          llm_messages =
            \<lparr>role = str ''system'', content = system_content\<rparr> #
            filter (\<lambda>msg. role msg \<noteq> str ''system'') (req_messages body)
      in \<lparr>pl_model = llm_model st,
          pl_messages = llm_messages,
          pl_temperature =
            (case req_temperature body of
               None \<Rightarrow> llm_temperature st
             | Some t \<Rightarrow> if t = 0 then llm_temperature st else t),
          pl_max_tokens =
            (case req_max_tokens body of
               None \<Rightarrow> llm_max_tokens st
             | Some n \<Rightarrow> if n = 0 then llm_max_tokens st else n),
          pl_stream = (case req_stream body of None \<Rightarrow> False | Some b \<Rightarrow> b),
          pl_top_p = req_top_p body\<rparr>)"

definition chat_completions ::
  "'s float_format \<Rightarrow> 's::linorder settings \<Rightarrow> ('v, 's) vectorstore \<Rightarrow> backend \<Rightarrow>
     chat_request \<Rightarrow> error + chat_response" where
  "chat_completions fmt st vs be body =
     (let user_message = last_user_message (req_messages body)
      in if user_message = [] then Inl (HTTPException 400)
         else
           (let (context, sources) = retrieve fmt st vs user_message;
                llm_payload = llm_request st body context
            in if req_stream body = Some True then
                 Inr (Streaming (stream_llm_response be llm_payload))
               else
                 (case complete_llm_response fmt be llm_payload sources of
                    Inl HTTPError \<Rightarrow> Inl (HTTPException 502)
                  | Inl e \<Rightarrow> Inl e
                  | Inr result \<Rightarrow> Inr (Completion result))))"

text \<open>
  The claim's side of source attribution, in the spec's words: the results a request
  retrieves (none when retrieval fails), those that meet the threshold, and the
  "Sources" section listing each of them with source, page and relevance as a
  percentage.
\<close>

definition retrieved ::
  "'s::linorder settings \<Rightarrow> ('v, 's) vectorstore \<Rightarrow> chat_request \<Rightarrow> 's retrieval_result list" where
  "retrieved st vs body =
     (case search vs (last_user_message (req_messages body)) (rag_top_k st) None of
        Inl e \<Rightarrow> []
      | Inr results \<Rightarrow> results)"

definition meets_threshold :: "'s::linorder settings \<Rightarrow> 's retrieval_result \<Rightarrow> bool" where
  "meets_threshold st r \<longleftrightarrow> rag_similarity_threshold st \<le> res_score r"

definition sources_section :: "'s float_format \<Rightarrow> 's retrieval_result list \<Rightarrow> pystr" where
  "sources_section fmt kept =
     [10, 10] @ str ''---'' @ [10] @ str ''**Quellen:**'' @ [10] @
     concat
       (map (\<lambda>r. str ''- '' @
                 py_str (dict_get (res_metadata r) (str ''source'') (PStr (str ''Unbekannt''))) @
                 str '', Seite '' @
                 py_str (dict_get (res_metadata r) (str ''page'') (PStr (str ''?''))) @
                 str '' (Relevanz: '' @ percent0 fmt (res_score r) @ str '')'' @ [10])
          kept)"

section \<open>Example data\<close>

text \<open>
  A store with 10001 points of the document \<open>d\<close>, an empty store whose embedding model
  maps every text to the same vector, and the requests the examples below run.
\<close>

definition big_store :: "(unit, nat) vectorstore" where
  "big_store =
     \<lparr>client =
        \<lparr>points =
           map (\<lambda>i. \<lparr>point_id = [i], vector = (),
                      payload = [(str ''text'', PStr []), (str ''document_id'', PStr (str ''d''))]\<rparr>)
             [0 ..< 10001],
         similarity = (\<lambda>a b. 0)\<rparr>,
      embedding = \<lparr>model = None\<rparr>,
      chunker = \<lparr>chunk_size = 512, overlap = 64\<rparr>,
      uuid4 = (\<lambda>n. [n]),
      uuid_calls = 10001\<rparr>"

definition empty_store :: "(unit, nat) vectorstore" where
  "empty_store =
     \<lparr>client = \<lparr>points = [], similarity = (\<lambda>a b. 1)\<rparr>,
      embedding = \<lparr>model = Some (map (\<lambda>t. ()))\<rparr>,
      chunker = \<lparr>chunk_size = 512, overlap = 64\<rparr>,
      uuid4 = (\<lambda>n. [n]),
      uuid_calls = 0\<rparr>"

definition example_upload :: upload_request where
  "example_upload =
     \<lparr>up_filename = str ''Akte.PDF'', up_pdf_bytes = [37, 80, 68, 70],
      up_document_type = str ''gerichtsakte'', up_patient_id = None,
      up_case_number = Some (str ''7'')\<rparr>"

definition example_ocr :: ocr_result where
  "example_ocr =
     \<lparr>ocr_markdown = Some (str ''eins zwei''),
      ocr_pages = Some [\<lparr>pg_text = Some (str ''eins''), pg_page = Some (PInt 1)\<rparr>,
                        \<lparr>pg_text = Some (str '' ''), pg_page = Some (PInt 2)\<rparr>,
                        \<lparr>pg_text = Some (str ''zwei''), pg_page = Some (PInt 3)\<rparr>],
      ocr_total_pages = Some (PInt 3)\<rparr>"

definition example_settings :: "nat settings" where
  "example_settings =
     \<lparr>llm_model = str ''Qwen'', llm_max_tokens = 4096, llm_temperature = 3 / 10,
      rag_top_k = 5, rag_similarity_threshold = 2\<rparr>"

definition example_format :: "nat float_format" where
  "example_format =
     \<lparr>fixed2 = (\<lambda>s. str_of_int (int s) @ str ''.00''),
      percent0 = (\<lambda>s. str_of_int (100 * int s) @ str ''%'')\<rparr>"

definition example_chat :: chat_request where
  "example_chat =
     \<lparr>req_messages = [\<lparr>role = str ''user'', content = str ''Frage''\<rparr>],
      req_temperature = None, req_max_tokens = None, req_stream = None, req_top_p = None\<rparr>"

text \<open>
  The state after \<open>example_upload\<close> with \<open>example_ocr\<close> on the empty store: pages 1 and
  3 give one point each, the blank page 2 gives none.
\<close>

definition example_point :: "pystr \<Rightarrow> pystr \<Rightarrow> int \<Rightarrow> unit point" where
  "example_point pid txt page =
     \<lparr>point_id = pid, vector = (),
      payload =
        [(str ''text'', PStr txt),
         (str ''source'', PStr (str ''Akte.PDF'')),
         (str ''document_id'', PStr [0]),
         (str ''document_type'', PStr (str ''gerichtsakte'')),
         (str ''patient_id'', PStr []),
         (str ''case_number'', PStr (str ''7'')),
         (str ''total_pages'', PInt 3),
         (str ''page'', PInt page)]\<rparr>"

definition example_indexed :: "(unit, nat) vectorstore" where
  "example_indexed =
     empty_store
       \<lparr>client := (client empty_store)
          \<lparr>points := [example_point [1] (str ''eins'') 1, example_point [2] (str ''zwei'') 3]\<rparr>,
        uuid_calls := 3\<rparr>"

text \<open>
  An index of three points whose score is the stored vector itself, for searches.
\<close>

definition example_payload :: "string \<Rightarrow> string \<Rightarrow> int \<Rightarrow> string \<Rightarrow> pydict" where
  "example_payload txt src page dtype =
     [(str ''text'', PStr (str txt)), (str ''source'', PStr (str src)),
      (str ''page'', PInt page), (str ''document_type'', PStr (str dtype))]"

definition example_index :: "(nat, nat) vectorstore" where
  "example_index =
     \<lparr>client =
        \<lparr>points =
           [\<lparr>point_id = str ''a'', vector = 1,
             payload = example_payload ''alpha'' ''A.pdf'' 1 ''gerichtsakte''\<rparr>,
            \<lparr>point_id = str ''b'', vector = 3,
             payload = example_payload ''beta'' ''B.pdf'' 2 ''gerichtsakte''\<rparr>,
            \<lparr>point_id = str ''c'', vector = 2,
             payload = example_payload ''gamma'' ''C.pdf'' 1 ''transcript''\<rparr>],
         similarity = (\<lambda>query v. v)\<rparr>,
      embedding = \<lparr>model = Some (map (\<lambda>t. 0))\<rparr>,
      chunker = \<lparr>chunk_size = 512, overlap = 64\<rparr>,
      uuid4 = (\<lambda>n. [n]),
      uuid_calls = 3\<rparr>"

definition example_result :: "string \<Rightarrow> string \<Rightarrow> int \<Rightarrow> string \<Rightarrow> nat \<Rightarrow> nat retrieval_result" where
  "example_result txt src page dtype sc =
     \<lparr>res_text = PStr (str txt), res_score = sc,
      res_metadata = [(str ''source'', PStr (str src)), (str ''page'', PInt page),
                      (str ''document_type'', PStr (str dtype))]\<rparr>"

definition example_backend :: "llm_result \<Rightarrow> backend" where
  "example_backend reply = \<lparr>llm_post = (\<lambda>request. Inr reply), llm_lines = (\<lambda>request. [])\<rparr>"



section \<open>Short texts\<close>

lemma length_strip_le: "length (strip s) \<le> length s"
proof -
  have "length (strip s) \<le> length (lstrip s)"
    unfolding strip_def rstrip_def using length_dropWhile_le [of isspace "rev (lstrip s)"] by simp
  also have "\<dots> \<le> length s"
    unfolding lstrip_def by (rule length_dropWhile_le)
  finally show ?thesis .
qed

text \<open>
  C6. A text no longer than \<open>chunk_size\<close> is returned as the single trimmed text, and a
  blank one (empty or whitespace only) gives the empty list.
\<close>

theorem chunk_short:
  assumes "int (length t) \<le> chunk_size c"
  shows "chunk c t = Some (if strip t = [] then [] else [strip t])"
proof -
  have "int (length (strip t)) \<le> chunk_size c"
    using assms length_strip_le [of t] by linarith
  then show ?thesis
    by (auto simp: chunk_def Let_def strip_def lstrip_def rstrip_def)
qed

theorem chunk_short_witness:
  "int (length (str ''  ab  '')) \<le> chunk_size \<lparr>chunk_size = 512, overlap = 64\<rparr> \<and>
   chunk \<lparr>chunk_size = 512, overlap = 64\<rparr> (str ''  ab  '') = Some [str ''ab'']"
  using chunk_short [of "str ''  ab  ''" "\<lparr>chunk_size = 512, overlap = 64\<rparr>"]
  by (simp add: str_def strip_def lstrip_def rstrip_def isspace_def)

section \<open>What the scan returns\<close>

lemma strip_id: "s \<noteq> [] \<Longrightarrow> \<not> isspace (hd s) \<Longrightarrow> \<not> isspace (last s) \<Longrightarrow> strip s = s"
proof -
  assume a: "s \<noteq> []" "\<not> isspace (hd s)" "\<not> isspace (last s)"
  then have l: "lstrip s = s"
    by (cases s) (auto simp: lstrip_def)
  have "rev s = last s # rev (butlast s)"
    using a(1) by (metis append_butlast_last_id rev.simps(2) rev_rev_ident rev_swap append_Nil append_Cons rev_append)
  moreover have "dropWhile isspace (last s # rev (butlast s)) = last s # rev (butlast s)"
    using a(3) by simp
  ultimately have "dropWhile isspace (rev s) = rev s"
    by (simp only:)
  then show ?thesis
    by (simp add: strip_def rstrip_def l)
qed

lemma find_rev_upt_Some:
  assumes "lo \<le> i" "i < hi" "P i" "\<And>j. i < j \<Longrightarrow> j < hi \<Longrightarrow> \<not> P j"
  shows "List.find P (rev [lo..<hi]) = Some i"
  using assms
proof (induction hi)
  case 0
  then show ?case by simp
next
  case (Suc h)
  show ?case
  proof (cases "i = h")
    case True
    then show ?thesis using Suc.prems by simp
  next
    case False
    then have "i < h" using Suc.prems(2) by simp
    moreover have "\<not> P h" using Suc.prems(4) [of h] \<open>i < h\<close> by simp
    moreover have "List.find P (rev [lo..<h]) = Some i"
      using Suc.IH Suc.prems \<open>i < h\<close> by simp
    ultimately show ?thesis using Suc.prems(1) by simp
  qed
qed

lemma rfind_eqI:
  assumes "0 \<le> start" "nat start \<le> i" "i + length sub \<le> adjust_index end (length t)"
    and "take (length sub) (drop i t) = sub"
    and "\<And>j. i < j \<Longrightarrow> j + length sub \<le> adjust_index end (length t) \<Longrightarrow>
           take (length sub) (drop j t) \<noteq> sub"
  shows "rfind t sub start end = int i"
proof -
  let ?hi = "adjust_index end (length t)"
  let ?m = "length sub"
  let ?P = "\<lambda>i. take ?m (drop i t) = sub"
  have "List.find ?P (rev [nat start ..< Suc (?hi - ?m)]) = Some i"
  proof (rule find_rev_upt_Some)
    show "nat start \<le> i" by fact
    show "i < Suc (?hi - ?m)" using assms(3) by linarith
    show "?P i" by fact
    show "\<not> ?P j" if "i < j" "j < Suc (?hi - ?m)" for j
      using assms(5) [of j] that assms(3) by simp
  qed
  moreover have "\<not> ?hi < nat start + ?m" using assms(2,3) by linarith
  ultimately show ?thesis
    using assms(1) by (simp add: rfind_def Let_def)
qed
























section \<open>A scan that never returns\<close>

lemma chunk_loop_stalls_aux:
  assumes "start < int (length t)" "start + csize < int (length t)"
    and "(let bs = find_split t start (start + csize) separators
          in (if bs - ovl < 0 then 0 else bs - ovl) = start \<and>
             keep_chunk chunks (strip (py_slice t start bs)) = chunks)"
    and run: "chunk_loop a b c d e = Some y"
  shows "\<not> (a = csize \<and> b = ovl \<and> c = t \<and> d = start \<and> e = chunks)"
proof (rule chunk_loop.raw_induct
    [where P = "\<lambda>a b c d e y. \<not> (a = csize \<and> b = ovl \<and> c = t \<and> d = start \<and> e = chunks)",
     OF _ run], goal_cases)
  case (1 f a' b' c' d' e' y')
  show ?case
  proof
    assume eq: "a' = csize \<and> b' = ovl \<and> c' = t \<and> d' = start \<and> e' = chunks"
    have "f csize ovl t start chunks = Some y'"
      using 1(2) eq assms(1-3) by (simp add: Let_def)
    from 1(1) [OF this] show False by simp
  qed
qed

lemma chunk_loop_stalls:
  assumes "start < int (length t)" "start + csize < int (length t)"
    and "(let bs = find_split t start (start + csize) separators
          in (if bs - ovl < 0 then 0 else bs - ovl) = start \<and>
             keep_chunk chunks (strip (py_slice t start bs)) = chunks)"
  shows "chunk_loop csize ovl t start chunks = None"
proof (cases "chunk_loop csize ovl t start chunks")
  case None
  then show ?thesis .
next
  case (Some r)
  from chunk_loop_stalls_aux [OF assms Some] show ?thesis by simp
qed

text \<open>
  C2. With the default configuration (\<open>chunk_size = 512\<close>, \<open>overlap = 64\<close>) the scan
  never returns on a five-character heading, three line breaks and 600 further
  characters: the first window splits after the line breaks at position 8, the piece
  \<open>Titel\<close> is dropped as too short, and the next start is \<open>max 0 (8 - 64) = 0\<close>
  again.
\<close>

theorem chunk_stalls_on_short_heading:
  "chunk \<lparr>chunk_size = 512, overlap = 64\<rparr> (str ''Titel'' @ [10, 10, 10] @ replicate 600 120) = None"
proof -
  define t where "t = str ''Titel'' @ [10, 10, 10] @ replicate 600 (120::nat)"
  have len: "length t = 608"
    by (simp add: t_def str_def)
  have st: "strip t = t"
    unfolding t_def by (rule strip_id) (simp_all add: isspace_def str_def)
  have nth: "t ! k = 120" if "8 \<le> k" "k < 608" for k
    using that by (simp add: t_def nth_append str_def)
  have "rfind t [10, 10, 10] 0 512 = int 5"
  proof (rule rfind_eqI)
    show "take (length [10, 10, 10::nat]) (drop 5 t) = [10, 10, 10]"
      by (simp add: t_def str_def)
    show "take (length [10, 10, 10::nat]) (drop j t) \<noteq> [10, 10, 10]"
      if "5 < j" "j + length [10, 10, 10::nat] \<le> adjust_index 512 (length t)" for j
    proof
      assume "take (length [10, 10, 10::nat]) (drop j t) = [10, 10, 10]"
      then have "take (length [10, 10, 10::nat]) (drop j t) ! 2 = [10, 10, 10::nat] ! 2"
        by simp
      moreover have "j + 2 < 608" using that(2) by (simp add: adjust_index_def len)
      ultimately have "t ! (j + 2) = 10"
        by (simp add: len)
      then show False using nth [of "j + 2"] that(1) \<open>j + 2 < 608\<close> by simp
    qed
  qed (simp_all add: adjust_index_def len)
  then have fs: "find_split t 0 512 separators = 8"
    by (simp add: separators_def)
  have s1: "strip (py_slice t 0 8) = str ''Titel''"
    by (simp add: t_def py_slice_def adjust_index_def str_def strip_def lstrip_def rstrip_def isspace_def)
  have l5: "length (str ''Titel'') = 5"
    by (simp add: str_def)
  have "chunk_loop 512 64 t 0 [] = None"
    by (rule chunk_loop_stalls) (simp_all add: fs s1 l5 len keep_chunk_def)
  moreover have "t \<noteq> []" using len by auto
  ultimately have "chunk \<lparr>chunk_size = 512, overlap = 64\<rparr> t = None"
    by (simp add: chunk_def st len)
  then show ?thesis
    by (simp only: t_def)
qed
section \<open>Role prefixes\<close>

text \<open>
  C7. \<open>embed_query\<close> hands the embedding capability exactly the one text
  \<open>"query: " + query\<close>, and \<open>embed_documents\<close> exactly the passages, each with
  \<open>"passage: "\<close> in front; with no model loaded both raise before any text is
  handed over.
\<close>

theorem embed_prefixes:
  "embed_query svc q =
     (case model svc of
        None \<Rightarrow> Inl RuntimeError
      | Some encode \<Rightarrow>
          (case encode [str ''query: '' @ q] of [] \<Rightarrow> Inl IndexError | v # _ \<Rightarrow> Inr v)) \<and>
   embed_documents svc docs =
     (case model svc of
        None \<Rightarrow> Inl RuntimeError
      | Some encode \<Rightarrow> Inr (encode (map (\<lambda>d. str ''passage: '' @ d) docs)))"
  by (simp add: embed_query_def embed_documents_def embed_def split: option.splits)

section \<open>Search\<close>

lemma matches_build_filter:
  "matches (build_filter filters) pl \<longleftrightarrow>
     list_all (\<lambda>(k, v). map_of pl k = Some v) (case filters of None \<Rightarrow> [] | Some fs \<Rightarrow> fs)"
proof (cases filters)
  case None
  then show ?thesis by (simp add: build_filter_def matches_def)
next
  case (Some fs)
  have "list_all (matches_condition pl) (map (\<lambda>(key, val). FieldCondition key val) fs) \<longleftrightarrow>
        list_all (\<lambda>(k, v). map_of pl k = Some v) fs"
    by (induction fs) auto
  then show ?thesis
    using Some by (simp add: build_filter_def matches_def Let_def)
qed

lemma sorted_desc_take_rev_sort_key:
  "sorted_wrt (\<lambda>a b. f b \<le> f a) (take n (rev (sort_key f xs)))"
proof -
  have "sorted (map f (sort_key f xs))" by simp
  then have "sorted_wrt (\<lambda>a b. f a \<le> f b) (sort_key f xs)"
    by (simp add: sorted_map)
  then have "sorted_wrt (\<lambda>a b. f b \<le> f a) (rev (sort_key f xs))"
    by (simp add: sorted_wrt_rev)
  then show ?thesis
    by (rule sorted_wrt_take)
qed

lemma search_eq:
  assumes "model (embedding vs) = Some encode" and "encode [str ''query: '' @ q] = v # rest"
  shows "search vs q top_k filters =
     Inr (map (project (similarity (client vs) v))
            (take (nat top_k)
               (rev (sort_key (\<lambda>p. similarity (client vs) v (vector p))
                  (filter (\<lambda>p. list_all (\<lambda>(k, val). map_of (payload p) k = Some val)
                                 (case filters of None \<Rightarrow> [] | Some fs \<Rightarrow> fs))
                     (points (client vs)))))))"
  using assms
  by (simp add: search_def embed_query_def embed_def query_points_def format_point_def
      project_def matches_build_filter Let_def comp_def)

text \<open>
  C1. With a loaded model, \<open>search\<close> embeds \<open>"query: " + query\<close> and returns the
  projections of the stored points that carry every key/value pair of the filter,
  best score first and at most \<open>top_k\<close> of them. Each result has the payload's
  \<open>text\<close>, the score, and as metadata the payload without its \<open>text\<close> key; the
  result record has no vector.
\<close>

theorem search_results:
  assumes "model (embedding vs) = Some encode" and "encode [str ''query: '' @ q] = v # rest"
  shows "\<exists>ps. search vs q top_k filters = Inr (map (project (similarity (client vs) v)) ps) \<and>
           ps = take (nat top_k)
                  (rev (sort_key (\<lambda>p. similarity (client vs) v (vector p))
                     (filter (\<lambda>p. list_all (\<lambda>(k, val). map_of (payload p) k = Some val)
                                    (case filters of None \<Rightarrow> [] | Some fs \<Rightarrow> fs))
                        (points (client vs))))) \<and>
           sorted_wrt (\<lambda>a b. res_score b \<le> res_score a)
             (map (project (similarity (client vs) v)) ps) \<and>
           list_all (\<lambda>r. map_of (res_metadata r) (str ''text'') = None)
             (map (project (similarity (client vs) v)) ps)"
proof -
  let ?sc = "\<lambda>p. similarity (client vs) v (vector p)"
  let ?ps = "take (nat top_k)
               (rev (sort_key ?sc
                  (filter (\<lambda>p. list_all (\<lambda>(k, val). map_of (payload p) k = Some val)
                                 (case filters of None \<Rightarrow> [] | Some fs \<Rightarrow> fs))
                     (points (client vs)))))"
  have "sorted_wrt (\<lambda>a b. ?sc b \<le> ?sc a) ?ps"
    by (rule sorted_desc_take_rev_sort_key)
  then have "sorted_wrt (\<lambda>a b. res_score b \<le> res_score a) (map (project (similarity (client vs) v)) ?ps)"
    by (simp add: sorted_wrt_map project_def)
  moreover have "map_of (filter (\<lambda>(k, v). k \<noteq> str ''text'') pl) (str ''text'') = None" for pl :: pydict
    by (induction pl) auto
  then have "list_all (\<lambda>r. map_of (res_metadata r) (str ''text'') = None)
               (map (project (similarity (client vs) v)) ?ps)"
    by (simp add: list_all_iff project_def)
  ultimately show ?thesis
    using search_eq [OF assms] by blast
qed

lemma example_search:
  "search example_index (str ''Frage'') 5 (Some [(str ''document_type'', PStr (str ''gerichtsakte''))]) =
     Inr [example_result ''beta'' ''B.pdf'' 2 ''gerichtsakte'' 3,
          example_result ''alpha'' ''A.pdf'' 1 ''gerichtsakte'' 1]"
  by (simp add: search_def embed_query_def embed_def query_points_def format_point_def
      build_filter_def matches_def example_index_def example_payload_def example_result_def
      dict_get_def Let_def str_def)

theorem search_results_witness:
  "model (embedding example_index) = Some (map (\<lambda>t. 0)) \<and>
   map (\<lambda>t. 0::nat) [str ''query: '' @ str ''Frage''] = 0 # [] \<and>
   search example_index (str ''Frage'') 5 (Some [(str ''document_type'', PStr (str ''gerichtsakte''))]) =
     Inr [example_result ''beta'' ''B.pdf'' 2 ''gerichtsakte'' 3,
          example_result ''alpha'' ''A.pdf'' 1 ''gerichtsakte'' 1] \<and>
   sorted_wrt (\<lambda>a b. res_score b \<le> res_score a)
     [example_result ''beta'' ''B.pdf'' 2 ''gerichtsakte'' 3,
      example_result ''alpha'' ''A.pdf'' 1 ''gerichtsakte'' 1]"
proof -
  have m: "model (embedding example_index) = Some (map (\<lambda>t. 0))"
    by (simp add: example_index_def)
  have e: "map (\<lambda>t. 0::nat) [str ''query: '' @ str ''Frage''] = 0 # []"
    by simp
  from search_results [OF m e, of 5 "Some [(str ''document_type'', PStr (str ''gerichtsakte''))]"]
  show ?thesis
    using m e example_search by auto
qed
section \<open>Deleting a document\<close>

lemma matches_document_filter:
  "matches (Some (document_filter d)) pl \<longleftrightarrow> map_of pl (str ''document_id'') = Some (PStr d)"
  by (simp add: matches_def document_filter_def)

lemma delete_document_count:
  "fst (delete_document vs d) =
     min 10000 (length (filter (\<lambda>p. map_of (payload p) (str ''document_id'') = Some (PStr d))
                   (points (client vs))))"
  by (simp add: delete_document_def scroll_def Let_def matches_document_filter min_def)

lemma delete_document_points:
  "points (client (snd (delete_document vs d))) =
     filter (\<lambda>p. map_of (payload p) (str ''document_id'') \<noteq> Some (PStr d)) (points (client vs))"
  by (simp add: delete_document_def delete_points_def Let_def matches_document_filter)

lemma big_store_matching:
  "filter (\<lambda>p. map_of (payload p) (str ''document_id'') = Some (PStr (str ''d'')))
     (points (client big_store)) = points (client big_store)"
  by (simp add: big_store_def filter_map comp_def str_def)

text \<open>
  C3. \<open>delete_document\<close> reports at most 10000: on a store with 10001 points of
  document \<open>d\<close> it deletes all of them and returns 10000.
\<close>

theorem delete_document_count_capped:
  "length (filter (\<lambda>p. map_of (payload p) (str ''document_id'') = Some (PStr (str ''d'')))
      (points (client big_store))) = 10001 \<and>
   fst (delete_document big_store (str ''d'')) = 10000 \<and>
   points (client (snd (delete_document big_store (str ''d'')))) = []"
proof -
  have len: "length (points (client big_store)) = 10001"
    by (simp add: big_store_def)
  have "filter (\<lambda>p. map_of (payload p) (str ''document_id'') \<noteq> Some (PStr (str ''d'')))
     (points (client big_store)) = []"
    by (simp add: big_store_def filter_map comp_def str_def)
  then show ?thesis
    by (simp add: delete_document_count delete_document_points big_store_matching len)
qed

section \<open>Blank OCR text\<close>

text \<open>
  C9. When the OCR reply's text is empty or whitespace only, the upload fails with
  status 422 and the store is left as it was.
\<close>

theorem blank_ocr_text_is_unprocessable:
  assumes "up_pdf_bytes req \<noteq> []"
    and "endswith (py_lower (up_filename req)) (str ''.pdf'')"
    and "strip (case ocr_markdown r of None \<Rightarrow> [] | Some m \<Rightarrow> m) = []"
  shows "upload_document vs req (Inr r) = Some (Inl (HTTPException 422), vs)"
  using assms by (simp add: upload_document_def Let_def)

theorem blank_ocr_text_is_unprocessable_witness:
  "up_pdf_bytes example_upload \<noteq> [] \<and>
   endswith (py_lower (up_filename example_upload)) (str ''.pdf'') \<and>
   strip (case ocr_markdown (example_ocr\<lparr>ocr_markdown := Some (str '' '' @ [10, 9])\<rparr>) of
            None \<Rightarrow> [] | Some m \<Rightarrow> m) = [] \<and>
   upload_document empty_store example_upload
     (Inr (example_ocr\<lparr>ocr_markdown := Some (str '' '' @ [10, 9])\<rparr>)) =
     Some (Inl (HTTPException 422), empty_store)"
  using blank_ocr_text_is_unprocessable
    [of example_upload "example_ocr\<lparr>ocr_markdown := Some (str '' '' @ [10, 9])\<rparr>" empty_store]
  by (simp add: example_upload_def example_ocr_def str_def endswith_def py_lower_def
      strip_def lstrip_def rstrip_def isspace_def)

section \<open>The user message\<close>

lemma find_append_if:
  "List.find P (xs @ ys) = (case List.find P xs of None \<Rightarrow> List.find P ys | Some x \<Rightarrow> Some x)"
  by (induction xs) auto

lemma last_user_message_empty:
  assumes "msgs = earlier @ [\<lparr>role = str ''user'', content = []\<rparr>] @ later"
    and "\<forall>m \<in> set later. role m \<noteq> str ''user''"
  shows "last_user_message msgs = []"
proof -
  have "List.find (\<lambda>msg. role msg = str ''user'') (rev later) = None"
    using assms(2) by (simp add: find_None_iff)
  then show ?thesis
    by (simp add: last_user_message_def assms(1) find_append_if)
qed

text \<open>
  C10. When the last message with role \<open>user\<close> has empty content, the request is
  rejected with status 400, whatever earlier user messages say.
\<close>

theorem empty_last_user_message_rejected:
  assumes "req_messages body = earlier @ [\<lparr>role = str ''user'', content = []\<rparr>] @ later"
    and "\<forall>m \<in> set later. role m \<noteq> str ''user''"
  shows "chat_completions fmt st vs be body = Inl (HTTPException 400)"
  using last_user_message_empty [OF assms] by (simp add: chat_completions_def)

theorem empty_last_user_message_rejected_witness:
  "req_messages
     (example_chat\<lparr>req_messages :=
        [\<lparr>role = str ''user'', content = str ''Frage''\<rparr>] @
        [\<lparr>role = str ''user'', content = []\<rparr>] @
        [\<lparr>role = str ''assistant'', content = str ''Antwort''\<rparr>]\<rparr>) =
     [\<lparr>role = str ''user'', content = str ''Frage''\<rparr>] @
     [\<lparr>role = str ''user'', content = []\<rparr>] @
     [\<lparr>role = str ''assistant'', content = str ''Antwort''\<rparr>] \<and>
   role \<lparr>role = str ''assistant'', content = str ''Antwort''\<rparr> \<noteq> str ''user'' \<and>
   content \<lparr>role = str ''user'', content = str ''Frage''\<rparr> \<noteq> [] \<and>
   chat_completions example_format example_settings empty_store
     \<lparr>llm_post = (\<lambda>p. Inr \<lparr>choices = Some []\<rparr>), llm_lines = (\<lambda>p. [])\<rparr>
     (example_chat\<lparr>req_messages :=
        [\<lparr>role = str ''user'', content = str ''Frage''\<rparr>] @
        [\<lparr>role = str ''user'', content = []\<rparr>] @
        [\<lparr>role = str ''assistant'', content = str ''Antwort''\<rparr>]\<rparr>) =
     Inl (HTTPException 400)"
  using empty_last_user_message_rejected
    [of "example_chat\<lparr>req_messages :=
        [\<lparr>role = str ''user'', content = str ''Frage''\<rparr>] @
        [\<lparr>role = str ''user'', content = []\<rparr>] @
        [\<lparr>role = str ''assistant'', content = str ''Antwort''\<rparr>]\<rparr>"
       "[\<lparr>role = str ''user'', content = str ''Frage''\<rparr>]"
       "[\<lparr>role = str ''assistant'', content = str ''Antwort''\<rparr>]"
       example_format example_settings empty_store
       "\<lparr>llm_post = (\<lambda>p. Inr \<lparr>choices = Some []\<rparr>), llm_lines = (\<lambda>p. [])\<rparr>"]
  by (simp add: str_def)

section \<open>Source attribution\<close>

lemma map_snd_filter_zip:
  assumes "length idx = length rs"
  shows "map snd (filter (\<lambda>(i, r). P r) (zip idx rs)) = filter P rs"
proof -
  have "map snd (filter (\<lambda>(i, r). P r) (zip idx rs)) = filter P (map snd (zip idx rs))"
    by (simp add: filter_map comp_def case_prod_unfold)
  also have "map snd (zip idx rs) = rs"
    using assms by (rule map_snd_zip)
  finally show ?thesis .
qed

lemma map_snd_relevant: "map snd (relevant st results) = filter (meets_threshold st) results"
proof -
  have "length [1 ..< Suc (length results)] = length results"
    by (simp only: length_upt diff_Suc_1)
  then have "map snd (filter (\<lambda>(i, r). meets_threshold st r) (zip [1 ..< Suc (length results)] results)) =
             filter (meets_threshold st) results"
    by (rule map_snd_filter_zip)
  then show ?thesis
    by (simp only: relevant_def meets_threshold_def)
qed

lemma source_line_source_of:
  "source_line fmt (source_of x) =
     str ''- '' @
     py_str (dict_get (res_metadata (snd x)) (str ''source'') (PStr (str ''Unbekannt''))) @
     str '', Seite '' @
     py_str (dict_get (res_metadata (snd x)) (str ''page'') (PStr (str ''?''))) @
     str '' (Relevanz: '' @ percent0 fmt (res_score (snd x)) @ str '')'' @ [10]"
  by (cases x) (simp add: source_line_def source_of_def)

lemma source_text_relevant:
  "source_text fmt (map source_of (relevant st results)) =
     sources_section fmt (filter (meets_threshold st) results)"
proof -
  have "map (source_line fmt) (map source_of (relevant st results)) =
        map (\<lambda>r. str ''- '' @
                 py_str (dict_get (res_metadata r) (str ''source'') (PStr (str ''Unbekannt''))) @
                 str '', Seite '' @
                 py_str (dict_get (res_metadata r) (str ''page'') (PStr (str ''?''))) @
                 str '' (Relevanz: '' @ percent0 fmt (res_score r) @ str '')'' @ [10])
          (map snd (relevant st results))"
    by (simp add: source_line_source_of comp_def)
  then show ?thesis
    by (simp only: source_text_def sources_section_def map_snd_relevant)
qed

lemma relevant_empty_iff:
  "map source_of (relevant st results) = [] \<longleftrightarrow> \<not> (\<exists>r \<in> set results. meets_threshold st r)"
proof -
  have "map source_of (relevant st results) = [] \<longleftrightarrow> map snd (relevant st results) = []"
    by simp
  then show ?thesis
    by (simp add: map_snd_relevant filter_empty_conv)
qed

lemma snd_retrieve:
  "snd (retrieve fmt st vs (last_user_message (req_messages body))) =
     map source_of (relevant st (retrieved st vs body))"
  by (auto simp: retrieve_def retrieved_def relevant_def split: sum.splits)

lemma sources_section_nonempty: "sources_section fmt kept \<noteq> []"
  by (simp add: sources_section_def)

text \<open>
  The append outside the claim: a reply without choices is returned as it came, and a
  first choice whose content is \<open>null\<close> or missing makes the append raise.
\<close>

lemma append_without_choices:
  assumes "llm_post be request = Inr result" and "choices result = None \<or> choices result = Some []"
  shows "complete_llm_response fmt be request sources = Inr result"
  using assms by (auto simp: complete_llm_response_def)

lemma append_to_null_content:
  assumes "llm_post be request = Inr result" and "sources \<noteq> []"
    and "choices result = Some (c # cs)"
  shows "message_content c = Some PNone \<Longrightarrow> complete_llm_response fmt be request sources = Inl TypeError"
    and "message_content c = None \<Longrightarrow> complete_llm_response fmt be request sources = Inl KeyError"
  using assms by (simp_all add: complete_llm_response_def)

text \<open>
  C4. Take a batched request with a user message, answered by the backend with a reply
  whose first choice has a message content. Then the completion returned is that
  reply with the first choice's content extended by the "Quellen" section when at
  least one retrieved result met the threshold, and by nothing otherwise. The section
  is the header followed by one line per result that met the threshold, in order,
  with its source, its page and its relevance as a percentage; it is never empty, so
  the content changes exactly when a result met the threshold.
\<close>

theorem sources_section_appended:
  assumes "req_stream body \<noteq> Some True"
    and "last_user_message (req_messages body) \<noteq> []"
    and "llm_post be
           (llm_request st body (fst (retrieve fmt st vs (last_user_message (req_messages body))))) =
         Inr result"
    and "choices result = Some (c # cs)"
    and "message_content c = Some (PStr answer)"
  shows "chat_completions fmt st vs be body =
           Inr (Completion
             (result\<lparr>choices :=
                Some (c\<lparr>message_content :=
                         Some (PStr (answer @
                           (if \<exists>r \<in> set (retrieved st vs body). meets_threshold st r
                            then sources_section fmt (filter (meets_threshold st) (retrieved st vs body))
                            else [])))\<rparr> # cs)\<rparr>)) \<and>
         sources_section fmt (filter (meets_threshold st) (retrieved st vs body)) \<noteq> []"
proof -
  let ?um = "last_user_message (req_messages body)"
  let ?rs = "retrieved st vs body"
  obtain ctx sources where rs: "retrieve fmt st vs ?um = (ctx, sources)"
    by (cases "retrieve fmt st vs ?um")
  then have src: "sources = map source_of (relevant st ?rs)"
    using snd_retrieve [of fmt st vs body] by simp
  have post: "llm_post be (llm_request st body ctx) = Inr result"
    using assms(3) rs by simp
  have same: "result\<lparr>choices := Some (c\<lparr>message_content := Some (PStr answer)\<rparr> # cs)\<rparr> = result"
    using assms(4,5) by simp
  have "complete_llm_response fmt be (llm_request st body ctx) sources =
        Inr (result\<lparr>choices :=
                Some (c\<lparr>message_content :=
                         Some (PStr (answer @
                           (if \<exists>r \<in> set ?rs. meets_threshold st r
                            then sources_section fmt (filter (meets_threshold st) ?rs)
                            else [])))\<rparr> # cs)\<rparr>)"
  proof (cases "\<exists>r \<in> set ?rs. meets_threshold st r")
    case True
    then have "sources \<noteq> []" using src relevant_empty_iff [of st ?rs] by simp
    moreover have "source_text fmt sources = sources_section fmt (filter (meets_threshold st) ?rs)"
      unfolding src by (rule source_text_relevant)
    ultimately show ?thesis
      using True post assms(4,5) by (simp add: complete_llm_response_def)
  next
    case False
    then have "sources = []" using src relevant_empty_iff [of st ?rs] by simp
    then show ?thesis
      using False post same by (simp add: complete_llm_response_def)
  qed
  then show ?thesis
    using assms(1,2) rs by (simp add: chat_completions_def Let_def sources_section_nonempty)
qed

lemma example_search_all:
  "search example_index (str ''Frage'') 5 None =
     Inr [example_result ''beta'' ''B.pdf'' 2 ''gerichtsakte'' 3,
          example_result ''gamma'' ''C.pdf'' 1 ''transcript'' 2,
          example_result ''alpha'' ''A.pdf'' 1 ''gerichtsakte'' 1]"
  by (simp add: search_def embed_query_def embed_def query_points_def format_point_def
      build_filter_def matches_def example_index_def example_payload_def example_result_def
      dict_get_def Let_def str_def)

lemma example_user_message: "last_user_message (req_messages example_chat) = str ''Frage''"
  by (simp add: last_user_message_def example_chat_def)

lemma example_top_k: "rag_top_k (example_settings\<lparr>rag_similarity_threshold := thr\<rparr>) = 5"
  by (simp add: example_settings_def)

lemma example_retrieved:
  "retrieved (example_settings\<lparr>rag_similarity_threshold := thr\<rparr>) example_index example_chat =
     [example_result ''beta'' ''B.pdf'' 2 ''gerichtsakte'' 3,
      example_result ''gamma'' ''C.pdf'' 1 ''transcript'' 2,
      example_result ''alpha'' ''A.pdf'' 1 ''gerichtsakte'' 1]"
  unfolding retrieved_def example_user_message example_top_k example_search_all by simp

lemma example_section:
  "sources_section example_format
     [example_result ''beta'' ''B.pdf'' 2 ''gerichtsakte'' 3,
      example_result ''gamma'' ''C.pdf'' 1 ''transcript'' 2] =
   [10, 10] @ str ''---'' @ [10] @ str ''**Quellen:**'' @ [10] @
   str ''- B.pdf, Seite 2 (Relevanz: 300%)'' @ [10] @
   str ''- C.pdf, Seite 1 (Relevanz: 200%)'' @ [10]"
  by (simp add: sources_section_def example_format_def example_result_def dict_get_def
      str_of_int_def digits.simps str_def)

theorem sources_section_appended_witness:
  "req_stream example_chat \<noteq> Some True \<and>
   last_user_message (req_messages example_chat) \<noteq> [] \<and>
   chat_completions example_format (example_settings\<lparr>rag_similarity_threshold := 2\<rparr>) example_index
     (example_backend \<lparr>choices = Some [\<lparr>message_content = Some (PStr (str ''Antwort''))\<rparr>]\<rparr>)
     example_chat =
   Inr (Completion
     \<lparr>choices = Some [\<lparr>message_content = Some (PStr
        (str ''Antwort'' @ [10, 10] @ str ''---'' @ [10] @ str ''**Quellen:**'' @ [10] @
         str ''- B.pdf, Seite 2 (Relevanz: 300%)'' @ [10] @
         str ''- C.pdf, Seite 1 (Relevanz: 200%)'' @ [10]))\<rparr>]\<rparr>) \<and>
   chat_completions example_format (example_settings\<lparr>rag_similarity_threshold := 4\<rparr>) example_index
     (example_backend \<lparr>choices = Some [\<lparr>message_content = Some (PStr (str ''Antwort''))\<rparr>]\<rparr>)
     example_chat =
   Inr (Completion \<lparr>choices = Some [\<lparr>message_content = Some (PStr (str ''Antwort''))\<rparr>]\<rparr>)"
proof -
  let ?reply = "\<lparr>choices = Some [\<lparr>message_content = Some (PStr (str ''Antwort''))\<rparr>]\<rparr>"
  let ?c = "\<lparr>message_content = Some (PStr (str ''Antwort''))\<rparr>"
  have b: "req_stream example_chat \<noteq> Some True"
    by (simp add: example_chat_def)
  have u: "last_user_message (req_messages example_chat) \<noteq> []"
    by (simp add: example_user_message str_def)
  have p: "llm_post (example_backend ?reply) request = Inr ?reply" for request
    by (simp add: example_backend_def)
  have c: "choices ?reply = Some (?c # [])" and m: "message_content ?c = Some (PStr (str ''Antwort''))"
    by simp_all
  have k2: "filter (meets_threshold (example_settings\<lparr>rag_similarity_threshold := 2\<rparr>))
              [example_result ''beta'' ''B.pdf'' 2 ''gerichtsakte'' 3,
               example_result ''gamma'' ''C.pdf'' 1 ''transcript'' 2,
               example_result ''alpha'' ''A.pdf'' 1 ''gerichtsakte'' 1] =
            [example_result ''beta'' ''B.pdf'' 2 ''gerichtsakte'' 3,
             example_result ''gamma'' ''C.pdf'' 1 ''transcript'' 2]"
    by (simp add: meets_threshold_def example_result_def)
  have k4: "filter (meets_threshold (example_settings\<lparr>rag_similarity_threshold := 4\<rparr>))
              [example_result ''beta'' ''B.pdf'' 2 ''gerichtsakte'' 3,
               example_result ''gamma'' ''C.pdf'' 1 ''transcript'' 2,
               example_result ''alpha'' ''A.pdf'' 1 ''gerichtsakte'' 1] = []"
    by (simp add: meets_threshold_def example_result_def)
  have e2: "\<exists>r \<in> set [example_result ''beta'' ''B.pdf'' 2 ''gerichtsakte'' 3,
               example_result ''gamma'' ''C.pdf'' 1 ''transcript'' 2,
               example_result ''alpha'' ''A.pdf'' 1 ''gerichtsakte'' 1].
              meets_threshold (example_settings\<lparr>rag_similarity_threshold := 2\<rparr>) r"
    by (simp add: meets_threshold_def example_result_def)
  have e4: "\<not> (\<exists>r \<in> set [example_result ''beta'' ''B.pdf'' 2 ''gerichtsakte'' 3,
               example_result ''gamma'' ''C.pdf'' 1 ''transcript'' 2,
               example_result ''alpha'' ''A.pdf'' 1 ''gerichtsakte'' 1].
              meets_threshold (example_settings\<lparr>rag_similarity_threshold := 4\<rparr>) r)"
    by (simp add: meets_threshold_def example_result_def)
  have r2: "chat_completions example_format (example_settings\<lparr>rag_similarity_threshold := 2\<rparr>)
      example_index (example_backend ?reply) example_chat =
    Inr (Completion
     \<lparr>choices = Some [\<lparr>message_content = Some (PStr
        (str ''Antwort'' @ [10, 10] @ str ''---'' @ [10] @ str ''**Quellen:**'' @ [10] @
         str ''- B.pdf, Seite 2 (Relevanz: 300%)'' @ [10] @
         str ''- C.pdf, Seite 1 (Relevanz: 200%)'' @ [10]))\<rparr>]\<rparr>)"
    using sources_section_appended [OF b u p c m, of example_format
        "example_settings\<lparr>rag_similarity_threshold := 2\<rparr>" example_index]
    unfolding example_retrieved k2 example_section using e2 by simp
  have r4: "chat_completions example_format (example_settings\<lparr>rag_similarity_threshold := 4\<rparr>)
      example_index (example_backend ?reply) example_chat = Inr (Completion ?reply)"
    using sources_section_appended [OF b u p c m, of example_format
        "example_settings\<lparr>rag_similarity_threshold := 4\<rparr>" example_index]
    unfolding example_retrieved k4 using e4 by simp
  from b u r2 r4 show ?thesis by blast
qed
section \<open>The metadata invariant\<close>

lemma map_of_dict_merge: "map_of (dict_merge a b) = map_of a ++ map_of (rev b)"
  unfolding dict_merge_def
proof (induction b arbitrary: a)
  case Nil
  then show ?case by simp
next
  case (Cons x b)
  obtain k v where x: "x = (k, v)" by (cases x)
  have "map_of (fold (\<lambda>(k, v). AList.update k v) b (AList.update k v a)) =
        map_of (AList.update k v a) ++ map_of (rev b)"
    by (rule Cons.IH)
  then show ?case
    by (simp add: x update_conv' map_add_upd_left dom_def fun_eq_iff map_add_def split: option.splits)
qed

lemma map_of_text_merge:
  "k \<noteq> str ''text'' \<Longrightarrow> map_of (dict_merge [(str ''text'', c)] md) k = map_of (rev md) k"
  by (simp add: map_of_dict_merge map_add_def split: option.splits)

lemma map_of_rev_update:
  "k' \<noteq> k \<Longrightarrow> map_of (rev (AList.update k v al)) k' = map_of (rev al) k'"
  by (induction al) (auto simp: map_add_def split: option.splits)

lemma map_of_rev_page_merge:
  "k \<noteq> str ''page'' \<Longrightarrow> map_of (rev (dict_merge md [(str ''page'', n)])) k = map_of (rev md) k"
  by (simp add: dict_merge_def map_of_rev_update)

lemma from_metadata_page:
  "from_metadata (dict_merge md [(str ''page'', n)]) p \<Longrightarrow> from_metadata md p"
  by (simp add: from_metadata_def map_of_rev_page_merge)

lemma extends_refl: "extends md vs vs"
  by (simp add: extends_def)

lemma extends_trans: "extends md vs vs' \<Longrightarrow> extends md vs' vs'' \<Longrightarrow> extends md vs vs''"
  by (fastforce simp: extends_def)

lemma from_metadata_new_point:
  "from_metadata md \<lparr>point_id = i, vector = e, payload = dict_merge [(str ''text'', PStr c)] md\<rparr>"
  by (simp add: from_metadata_def map_of_text_merge)

lemma add_text_extends:
  assumes "add_text vs t md = Some (r, vs')"
  shows "extends md vs vs'"
  using assms
  by (auto simp: add_text_def extends_def upsert_def Let_def from_metadata_new_point
      split: option.splits if_splits sum.splits)

lemma index_pages_extends:
  "index_pages vs md pages n = Some (r, vs') \<Longrightarrow> extends md vs vs'"
proof (induction pages arbitrary: vs n)
  case Nil
  then show ?case by (simp add: extends_refl)
next
  case (Cons pinfo rest)
  let ?t = "case pg_text pinfo of None \<Rightarrow> [] | Some t \<Rightarrow> t"
  let ?n = "case pg_page pinfo of None \<Rightarrow> PInt 0 | Some n \<Rightarrow> n"
  show ?case
  proof (cases "strip ?t \<noteq> []")
    case False
    then show ?thesis using Cons by (simp add: Let_def)
  next
    case True
    then obtain r1 vs1 where a: "add_text vs ?t (dict_merge md [(str ''page'', ?n)]) = Some (r1, vs1)"
      using Cons.prems by (auto simp: Let_def split: option.splits)
    have "extends (dict_merge md [(str ''page'', ?n)]) vs vs1"
      by (rule add_text_extends [OF a])
    then have e1: "extends md vs vs1"
      using from_metadata_page by (fastforce simp: extends_def)
    show ?thesis
    proof (cases r1)
      case (Inl e)
      then have "vs' = vs1" using Cons.prems True a by (simp add: Let_def)
      then show ?thesis using e1 by simp
    next
      case (Inr count)
      then have "index_pages vs1 md rest (n + count) = Some (r, vs')"
        using Cons.prems True a by (simp add: Let_def)
      from Cons.IH [OF this] e1 show ?thesis by (rule extends_trans [rotated])
    qed
  qed
qed

lemma upload_document_extends:
  assumes "upload_document vs req ocr = Some (r, vs')"
  shows "vs' = vs \<or>
         (\<exists>md. map_of (rev md) (str ''document_id'') = Some (PStr (uuid4 vs (uuid_calls vs))) \<and>
               extends md (vs\<lparr>uuid_calls := uuid_calls vs + 1\<rparr>) vs')"
proof (cases "vs' = vs")
  case True
  then show ?thesis by simp
next
  case False
  obtain res where ocr: "ocr = Inr res"
    using assms False
    by (cases ocr) (auto simp: upload_document_def split: if_splits error.splits)
  let ?mt = "case ocr_markdown res of None \<Rightarrow> [] | Some m \<Rightarrow> m"
  let ?pages = "case ocr_pages res of None \<Rightarrow> [] | Some ps \<Rightarrow> ps"
  let ?vs1 = "vs\<lparr>uuid_calls := uuid_calls vs + 1\<rparr>"
  let ?md = "[(str ''source'', PStr (up_filename req)),
              (str ''document_id'', PStr (uuid4 vs (uuid_calls vs))),
              (str ''document_type'', PStr (up_document_type req)),
              (str ''patient_id'', PStr (case up_patient_id req of None \<Rightarrow> [] | Some p \<Rightarrow> p)),
              (str ''case_number'', PStr (case up_case_number req of None \<Rightarrow> [] | Some c \<Rightarrow> c)),
              (str ''total_pages'', (case ocr_total_pages res of None \<Rightarrow> PInt 0 | Some n \<Rightarrow> n))]"
  let ?step = "if ?pages \<noteq> [] then index_pages ?vs1 ?md ?pages 0
               else add_text ?vs1 ?mt (dict_merge ?md [(str ''page'', PInt 0)])"
  have "\<exists>r1. ?step = Some (r1, vs')"
    using assms False ocr
    by (auto simp: upload_document_def Let_def split: if_splits option.splits sum.splits)
  then obtain r1 where step: "?step = Some (r1, vs')" ..
  have "extends ?md ?vs1 vs'"
  proof (cases "?pages \<noteq> []")
    case True
    then have "index_pages ?vs1 ?md ?pages 0 = Some (r1, vs')" using step by simp
    then show ?thesis by (rule index_pages_extends)
  next
    case False
    then have "add_text ?vs1 ?mt (dict_merge ?md [(str ''page'', PInt 0)]) = Some (r1, vs')"
      using step by simp
    then have "extends (dict_merge ?md [(str ''page'', PInt 0)]) ?vs1 vs'"
      by (rule add_text_extends)
    then show ?thesis
      using from_metadata_page by (fastforce simp: extends_def)
  qed
  moreover have "map_of (rev ?md) (str ''document_id'') = Some (PStr (uuid4 vs (uuid_calls vs)))"
    by (simp add: str_def)
  ultimately show ?thesis by blast
qed

lemma transcribe_extends:
  assumes "transcribe_long_audio vs ready req stt = Some (r, vs')"
  shows "vs' = vs \<or>
         (\<exists>md. map_of (rev md) (str ''document_id'') = Some (PStr (uuid4 vs (uuid_calls vs))) \<and>
               extends md (vs\<lparr>uuid_calls := uuid_calls vs + 1\<rparr>) vs')"
proof (cases "vs' = vs")
  case True
  then show ?thesis by simp
next
  case False
  then obtain tr pid r1 where a: "add_transcript vs tr pid = Some (r1, vs')"
    using assms
    by (auto simp: transcribe_long_audio_def Let_def
        split: if_splits option.splits sum.splits)
  let ?md = "[(str ''source'', (case tr_filename tr of None \<Rightarrow> PStr (str ''audio_transcript'') | Some f \<Rightarrow> f)),
             (str ''document_type'', PStr (str ''transcript'')),
             (str ''patient_id'', PStr pid),
             (str ''duration'', (case tr_duration tr of None \<Rightarrow> PInt 0 | Some d \<Rightarrow> d)),
             (str ''document_id'', PStr (uuid4 vs (uuid_calls vs))),
             (str ''page'', PInt 0)]"
  have "add_text (vs\<lparr>uuid_calls := uuid_calls vs + 1\<rparr>)
          (case tr_text tr of None \<Rightarrow> [] | Some t \<Rightarrow> t) ?md = Some (r1, vs')"
    using a by (simp add: add_transcript_def Let_def)
  then have "extends ?md (vs\<lparr>uuid_calls := uuid_calls vs + 1\<rparr>) vs'"
    by (rule add_text_extends)
  moreover have "map_of (rev ?md) (str ''document_id'') = Some (PStr (uuid4 vs (uuid_calls vs)))"
    by (simp add: str_def)
  ultimately show ?thesis by blast
qed

lemma invariant_step:
  fixes vs vs' :: "('v, 's) vectorstore"
  assumes inv: "metadata_invariant vs" and inj: "inj (uuid4 vs)"
    and md: "map_of (rev md) (str ''document_id'') = Some (PStr (uuid4 vs (uuid_calls vs)))"
    and ext: "extends md (vs\<lparr>uuid_calls := uuid_calls vs + 1\<rparr>) vs'"
  shows "metadata_invariant vs'"
proof -
  have u: "uuid4 vs' = uuid4 vs" and c: "uuid_calls vs < uuid_calls vs'"
    and pts: "\<And>p. p \<in> set (points (client vs')) \<Longrightarrow>
                p \<in> set (points (client vs)) \<or> from_metadata md p"
    using ext by (auto simp: extends_def)
  have old: "\<exists>n < uuid_calls vs. map_of (payload p) (str ''document_id'') = Some (PStr (uuid4 vs n))"
    if "p \<in> set (points (client vs))" for p
    using inv that by (auto simp: metadata_invariant_def doc_ids_used_def)
  have new: "map_of (payload p) (str ''document_id'') = Some (PStr (uuid4 vs (uuid_calls vs)))"
    if "from_metadata md p" for p :: "'v point"
    using that md by (simp add: from_metadata_def str_def)
  have "doc_ids_used vs'"
    unfolding doc_ids_used_def
  proof
    fix p assume "p \<in> set (points (client vs'))"
    then consider "p \<in> set (points (client vs))" | "from_metadata md p" using pts by blast
    then show "\<exists>n<uuid_calls vs'. map_of (payload p) (str ''document_id'') = Some (PStr (uuid4 vs' n))"
    proof cases
      case 1
      then show ?thesis using old [OF 1] c u by (metis less_trans)
    next
      case 2
      then show ?thesis using new [OF 2] c u by metis
    qed
  qed
  moreover have "metadata_agree p q"
    if p: "p \<in> set (points (client vs'))" and q: "q \<in> set (points (client vs'))"
      and s: "same_document p q" for p q
  proof -
    have mixed: False
      if m1: "a \<in> set (points (client vs))" and m2: "from_metadata md b"
        and m3: "map_of (payload a) (str ''document_id'') = map_of (payload b) (str ''document_id'')"
      for a b :: "'v point"
    proof -
      obtain n where "n < uuid_calls vs" "uuid4 vs n = uuid4 vs (uuid_calls vs)"
        using old [OF m1] new [OF m2] m3 by auto
      then show False using inj by (auto dest: injD)
    qed
    consider "p \<in> set (points (client vs))" "q \<in> set (points (client vs))"
      | "p \<in> set (points (client vs))" "from_metadata md q"
      | "from_metadata md p" "q \<in> set (points (client vs))"
      | "from_metadata md p" "from_metadata md q"
      using pts [OF p] pts [OF q] by blast
    then show ?thesis
    proof cases
      case 1
      then show ?thesis using inv s by (auto simp: metadata_invariant_def)
    next
      case 2
      then show ?thesis using mixed [of p q] s by (simp add: same_document_def)
    next
      case 3
      then show ?thesis using mixed [of q p] s by (simp add: same_document_def)
    next
      case 4
      then show ?thesis by (simp add: from_metadata_def metadata_agree_def)
    qed
  qed
  ultimately show ?thesis
    by (simp add: metadata_invariant_def)
qed

lemma reachable_invariant:
  assumes "vs \<in> reachable vs0" "inj (uuid4 vs0)" "points (client vs0) = []"
  shows "metadata_invariant vs \<and> uuid4 vs = uuid4 vs0"
  using assms
proof (induction rule: reachable.induct)
  case start
  then show ?case by (simp add: metadata_invariant_def doc_ids_used_def)
next
  case (upload vs req ocr r vs')
  then have inv: "metadata_invariant vs" and u: "uuid4 vs = uuid4 vs0" by simp_all
  from upload_document_extends [OF upload(2)] show ?case
  proof
    assume "vs' = vs"
    then show ?thesis using inv u by simp
  next
    assume "\<exists>md. map_of (rev md) (str ''document_id'') = Some (PStr (uuid4 vs (uuid_calls vs))) \<and>
               extends md (vs\<lparr>uuid_calls := uuid_calls vs + 1\<rparr>) vs'"
    then obtain md where md: "map_of (rev md) (str ''document_id'') = Some (PStr (uuid4 vs (uuid_calls vs)))"
      and ext: "extends md (vs\<lparr>uuid_calls := uuid_calls vs + 1\<rparr>) vs'" by blast
    have "inj (uuid4 vs)" using u upload.prems by simp
    with inv have "metadata_invariant vs'"
      using md ext by (rule invariant_step)
    moreover have "uuid4 vs' = uuid4 vs0" using ext u by (simp add: extends_def)
    ultimately show ?thesis by simp
  qed
next
  case (transcribe vs ready areq stt r' vs')
  then have inv: "metadata_invariant vs" and u: "uuid4 vs = uuid4 vs0" by simp_all
  from transcribe_extends [OF transcribe(2)] show ?case
  proof
    assume "vs' = vs"
    then show ?thesis using inv u by simp
  next
    assume "\<exists>md. map_of (rev md) (str ''document_id'') = Some (PStr (uuid4 vs (uuid_calls vs))) \<and>
               extends md (vs\<lparr>uuid_calls := uuid_calls vs + 1\<rparr>) vs'"
    then obtain md where md: "map_of (rev md) (str ''document_id'') = Some (PStr (uuid4 vs (uuid_calls vs)))"
      and ext: "extends md (vs\<lparr>uuid_calls := uuid_calls vs + 1\<rparr>) vs'" by blast
    have "inj (uuid4 vs)" using u transcribe.prems by simp
    with inv have "metadata_invariant vs'"
      using md ext by (rule invariant_step)
    moreover have "uuid4 vs' = uuid4 vs0" using ext u by (simp add: extends_def)
    ultimately show ?thesis by simp
  qed
qed

text \<open>
  C8. Start from an empty collection, with \<open>uuid4\<close> never returning the same
  identifier twice. In every state that uploads and transcript indexing reach, two
  stored points with the same \<open>document_id\<close> agree on every payload key other than
  \<open>text\<close> and \<open>page\<close>: source, document type, patient, case number, total pages.
\<close>

theorem document_metadata_identical:
  assumes "inj (uuid4 vs0)" and "points (client vs0) = []" and "vs \<in> reachable vs0"
    and "p \<in> set (points (client vs))" and "q \<in> set (points (client vs))"
    and "same_document p q"
  shows "metadata_agree p q"
  using reachable_invariant [OF assms(3,1,2)] assms(4-6)
  by (auto simp: metadata_invariant_def)

lemma example_chunks:
  "chunk \<lparr>chunk_size = 512, overlap = 64\<rparr> (str ''eins'') = Some [str ''eins'']"
  "chunk \<lparr>chunk_size = 512, overlap = 64\<rparr> (str ''zwei'') = Some [str ''zwei'']"
  by (simp_all add: chunk_def str_def strip_def lstrip_def rstrip_def isspace_def)

lemma example_upload_run:
  "\<exists>r. upload_document empty_store example_upload (Inr example_ocr) = Some (r, example_indexed)"
  using example_chunks
  by (simp add: upload_document_def example_upload_def example_ocr_def empty_store_def
      example_indexed_def example_point_def Let_def endswith_def py_lower_def
      strip_def lstrip_def rstrip_def isspace_def add_text_def
      embed_documents_def embed_def upsert_def dict_merge_def str_def)

theorem document_metadata_identical_witness:
  "inj (uuid4 empty_store) \<and> points (client empty_store) = [] \<and>
   example_indexed \<in> reachable empty_store \<and>
   example_point [1] (str ''eins'') 1 \<in> set (points (client example_indexed)) \<and>
   example_point [2] (str ''zwei'') 3 \<in> set (points (client example_indexed)) \<and>
   same_document (example_point [1] (str ''eins'') 1) (example_point [2] (str ''zwei'') 3) \<and>
   metadata_agree (example_point [1] (str ''eins'') 1) (example_point [2] (str ''zwei'') 3)"
proof -
  have i: "inj (uuid4 empty_store)"
    by (simp add: empty_store_def inj_def)
  have e: "points (client empty_store) = []"
    by (simp add: empty_store_def)
  obtain r where "upload_document empty_store example_upload (Inr example_ocr) = Some (r, example_indexed)"
    using example_upload_run ..
  then have r: "example_indexed \<in> reachable empty_store"
    by (rule reachable.upload [OF reachable.start])
  have p: "example_point [1] (str ''eins'') 1 \<in> set (points (client example_indexed))"
    and q: "example_point [2] (str ''zwei'') 3 \<in> set (points (client example_indexed))"
    by (simp_all add: example_indexed_def)
  have s: "same_document (example_point [1] (str ''eins'') 1) (example_point [2] (str ''zwei'') 3)"
    by (simp add: same_document_def example_point_def str_def)
  from document_metadata_identical [OF i e r p q s] i e r p q s show ?thesis
    by simp
qed

end
